theory Spec2Isabelle
  imports Complex_Main
begin

section \<open>Canonical data model (types.ts, here src/unnamed/part_001)\<close>

text \<open>
  \<^verbatim>\<open>KlineData\<close> is the canonical candle. The TypeScript fields are all \<^verbatim>\<open>number\<close>;
  following the data model, \<^verbatim>\<open>time\<close> is an integer (epoch milliseconds) and the
  prices and the volume are finite reals. The field \<^verbatim>\<open>open\<close> is named
  \<open>open_price\<close> here, because \<open>open\<close> is the HOL predicate for open sets.
\<close>

datatype ExchangeType = Binance | Bybit | MEXC | Gate | OKX

record KlineData =
  time :: int
  open_price :: real
  high :: real
  low :: real
  close :: real
  volume :: real

section \<open>The candle series and the stream merge callback (App.tsx, loadData)\<close>

text \<open>
  The series is the array held in \<^verbatim>\<open>klineDataRef.current\<close>. It is written in two
  places of \<^verbatim>\<open>loadData\<close>: the bulk replace after \<^verbatim>\<open>fetchKlines\<close> resolves
  (\<^verbatim>\<open>setKlineData(klines); klineDataRef.current = klines\<close>) and the callback handed
  to \<^verbatim>\<open>subscribeToKline\<close>, which the specification calls \<^verbatim>\<open>mergeOne\<close>. Both are
  modelled by explicit state passing: the function takes the current array and returns
  the array stored afterwards.
\<close>

definition replaceAll :: "KlineData list \<Rightarrow> KlineData list \<Rightarrow> KlineData list" where
  "replaceAll currentData klines = klines"

definition mergeOne :: "KlineData list \<Rightarrow> KlineData \<Rightarrow> KlineData list" where
  "mergeOne currentData newCandle =
     (if length currentData = 0 then currentData
      else
        let lastCandle = last currentData in
        if time newCandle = time lastCandle
        then butlast currentData @ [newCandle]
        else if length currentData > 500
             then tl currentData @ [newCandle]
             else currentData @ [newCandle])"

text \<open>The series invariant of the data model: strictly increasing times.\<close>

definition strictly_increasing :: "KlineData list \<Rightarrow> bool" where
  "strictly_increasing xs = sorted_wrt (<) (map time xs)"

text \<open>Test data: a flat candle at a given time, and the series with times \<open>0, ..., n - 1\<close>.\<close>

definition candleAt :: "int \<Rightarrow> KlineData" where
  "candleAt t = \<lparr>time = t, open_price = 1, high = 1, low = 1, close = 1, volume = 1\<rparr>"

definition seriesUpTo :: "nat \<Rightarrow> KlineData list" where
  "seriesUpTo n = map (\<lambda>i. candleAt (int i)) [0..<n]"

section \<open>JavaScript numbers where a division can hit zero\<close>

text \<open>
  A JavaScript \<^verbatim>\<open>number\<close> is an IEEE-754 double. Rounding is not modelled: a finite
  number is a real. What is modelled is the exceptional arithmetic that a division by
  zero brings in: the two infinities and NaN, with the IEEE-754 rules for them. Zero is
  unsigned and behaves as +0; the divisors that occur below (\<^verbatim>\<open>avgLoss\<close>, \<^verbatim>\<open>period\<close>,
  \<^verbatim>\<open>1 + rs\<close>) are never -0 for a period of at least 1, since gains and losses are
  sums of non-negative terms starting from the literal 0.
\<close>

datatype jsnum = Fin real | PosInf | NegInf | NaN

fun jneg :: "jsnum \<Rightarrow> jsnum" where
  "jneg (Fin x) = Fin (- x)"
| "jneg PosInf = NegInf"
| "jneg NegInf = PosInf"
| "jneg NaN = NaN"

fun jadd :: "jsnum \<Rightarrow> jsnum \<Rightarrow> jsnum" where
  "jadd NaN _ = NaN"
| "jadd _ NaN = NaN"
| "jadd (Fin x) (Fin y) = Fin (x + y)"
| "jadd PosInf NegInf = NaN"
| "jadd NegInf PosInf = NaN"
| "jadd PosInf _ = PosInf"
| "jadd NegInf _ = NegInf"
| "jadd (Fin x) PosInf = PosInf"
| "jadd (Fin x) NegInf = NegInf"

definition jsub :: "jsnum \<Rightarrow> jsnum \<Rightarrow> jsnum" where
  "jsub a b = jadd a (jneg b)"

text \<open>The sign of an infinity times (or divided by) a finite factor; zero counts as +0.\<close>

definition inf_signed :: "bool \<Rightarrow> jsnum" where
  "inf_signed positive = (if positive then PosInf else NegInf)"

fun jmul :: "jsnum \<Rightarrow> jsnum \<Rightarrow> jsnum" where
  "jmul NaN _ = NaN"
| "jmul _ NaN = NaN"
| "jmul (Fin x) (Fin y) = Fin (x * y)"
| "jmul (Fin x) PosInf = (if x = 0 then NaN else inf_signed (0 < x))"
| "jmul (Fin x) NegInf = (if x = 0 then NaN else inf_signed (x < 0))"
| "jmul PosInf (Fin y) = (if y = 0 then NaN else inf_signed (0 < y))"
| "jmul NegInf (Fin y) = (if y = 0 then NaN else inf_signed (y < 0))"
| "jmul PosInf PosInf = PosInf"
| "jmul PosInf NegInf = NegInf"
| "jmul NegInf PosInf = NegInf"
| "jmul NegInf NegInf = PosInf"

fun jdiv :: "jsnum \<Rightarrow> jsnum \<Rightarrow> jsnum" where
  "jdiv NaN _ = NaN"
| "jdiv _ NaN = NaN"
| "jdiv (Fin x) (Fin y) =
     (if y \<noteq> 0 then Fin (x / y)
      else if x = 0 then NaN
      else inf_signed (0 < x))"
| "jdiv (Fin x) PosInf = Fin 0"
| "jdiv (Fin x) NegInf = Fin 0"
| "jdiv PosInf (Fin y) = inf_signed (0 \<le> y)"
| "jdiv NegInf (Fin y) = inf_signed (y < 0)"
| "jdiv PosInf _ = NaN"
| "jdiv NegInf _ = NaN"

section \<open>The indicator engine (utils/indicators.ts, here src/unnamed/part_000)\<close>

text \<open>
  The exceptions of the JavaScript runtime that the modelled code can raise, with their
  message.
\<close>

datatype error = Error string | TypeError string | SyntaxError string

text \<open>
  Every \<^verbatim>\<open>period\<close> is a non-negative integer (the call sites pass 7, 25, 99 and the
  defaults 14 and 9), so it is a \<open>nat\<close>; the comparisons \<^verbatim>\<open>i < period - 1\<close> and
  \<^verbatim>\<open>i === period - 1\<close> are taken over the integers, where \<^verbatim>\<open>period - 1\<close> may be
  \<open>-1\<close>. A \<^verbatim>\<open>for\<close> loop over the indices is a \<open>fold\<close> of its body over the index
  list; the mutable locals are the state that the body takes and returns. \<^verbatim>\<open>null\<close> in
  an output array is \<open>None\<close>.
\<close>

subsection \<open>calculateEMA\<close>

text \<open>
  The inner loop \<^verbatim>\<open>for (j = 0; j <= i; j++) sum += data[j].close\<close>.
\<close>

definition ema_sum :: "KlineData list \<Rightarrow> nat \<Rightarrow> real" where
  "ema_sum data i = fold (\<lambda>j sum. sum + close (data ! j)) [0..<Suc i] 0"

definition ema_step :: "KlineData list \<Rightarrow> nat \<Rightarrow> nat \<Rightarrow> real \<times> real option list
    \<Rightarrow> real \<times> real option list" where
  "ema_step data period i st =
     (let k = 2 / (real period + 1); ema = fst st; emaArray = snd st in
      if int i < int period - 1
      then ((ema * real i + close (data ! i)) / (real i + 1), emaArray @ [None])
      else if int i = int period - 1
      then (let ema' = ema_sum data i / real period in (ema', emaArray @ [Some ema']))
      else (let ema' = close (data ! i) * k + ema * (1 - k) in (ema', emaArray @ [Some ema'])))"

text \<open>
  \<^verbatim>\<open>let ema = data[0].close\<close> comes before the loop: on the empty array \<^verbatim>\<open>data[0]\<close>
  is \<^verbatim>\<open>undefined\<close> and reading \<^verbatim>\<open>.close\<close> of it throws a TypeError.
\<close>

definition calculateEMA :: "KlineData list \<Rightarrow> nat \<Rightarrow> error + real option list" where
  "calculateEMA data period =
     (case data of
        [] \<Rightarrow> Inl (TypeError ''Cannot read properties of undefined (reading close)'')
      | d0 # _ \<Rightarrow>
          Inr (snd (fold (ema_step data period) [0..<length data] (close d0, []))))"

subsection \<open>calculateRSI\<close>

text \<open>
  The function first runs a loop that fills \<^verbatim>\<open>rsiArray\<close>, which is never read again
  and raises nothing; the returned array is built by the second loop (Wilder's
  smoothing), which is what is modelled. Its state is \<^verbatim>\<open>(avgGain, avgLoss, result)\<close>.
  The averages are divided by \<^verbatim>\<open>period\<close> and by each other with no test for zero,
  so they are \<open>jsnum\<close>s.
\<close>

definition rsi_value :: "jsnum \<Rightarrow> jsnum \<Rightarrow> jsnum" where
  "rsi_value avgGain avgLoss =
     (let rs = jdiv avgGain avgLoss in jsub (Fin 100) (jdiv (Fin 100) (jadd (Fin 1) rs)))"

definition rsi_step :: "KlineData list \<Rightarrow> nat \<Rightarrow> nat \<Rightarrow> jsnum \<times> jsnum \<times> jsnum option list
    \<Rightarrow> jsnum \<times> jsnum \<times> jsnum option list" where
  "rsi_step data period i st =
     (let avgGain = fst st; avgLoss = fst (snd st); result = snd (snd st);
          change = close (data ! i) - close (data ! (i - 1));
          gain = (if change > 0 then change else 0);
          loss = (if change < 0 then \<bar>change\<bar> else 0)
      in
      if i < period
      then (jadd avgGain (Fin gain), jadd avgLoss (Fin loss), result)
      else if i = period
      then (let avgGain' = jdiv avgGain (Fin (real period));
                avgLoss' = jdiv avgLoss (Fin (real period))
            in (avgGain', avgLoss', result[i := Some (rsi_value avgGain' avgLoss')]))
      else (let avgGain' = jdiv (jadd (jmul avgGain (Fin (real period - 1))) (Fin gain))
                             (Fin (real period));
                avgLoss' = jdiv (jadd (jmul avgLoss (Fin (real period - 1))) (Fin loss))
                             (Fin (real period))
            in (avgGain', avgLoss', result[i := Some (rsi_value avgGain' avgLoss')])))"

definition calculateRSI :: "KlineData list \<Rightarrow> nat \<Rightarrow> jsnum option list" where
  "calculateRSI data period =
     snd (snd (fold (rsi_step data period) [1..<length data]
                 (Fin 0, Fin 0, replicate (length data) None)))"

subsection \<open>calculateKDJ\<close>

record KDJ =
  k_line :: "real option list"
  d_line :: "real option list"
  j_line :: "real option list"

text \<open>
  The window scan \<^verbatim>\<open>for (j = 0; j < period; j++)\<close> over \<^verbatim>\<open>data[i - j]\<close> with the
  state \<^verbatim>\<open>(low, high)\<close>; it runs only for \<^verbatim>\<open>i >= period - 1\<close>, so \<^verbatim>\<open>i - j\<close> is
  never negative.
\<close>

definition kdj_window :: "KlineData list \<Rightarrow> nat \<Rightarrow> nat \<Rightarrow> real \<times> real" where
  "kdj_window data period i =
     fold (\<lambda>j (lo, hi).
             (if low (data ! (i - j)) < lo then low (data ! (i - j)) else lo,
              if high (data ! (i - j)) > hi then high (data ! (i - j)) else hi))
       [0..<period] (low (data ! i), high (data ! i))"

definition kdj_step :: "KlineData list \<Rightarrow> nat \<Rightarrow> nat \<Rightarrow> real \<times> real \<times> KDJ \<Rightarrow> real \<times> real \<times> KDJ" where
  "kdj_step data period i st =
     (let kValue = fst st; dValue = fst (snd st); out = snd (snd st) in
      if int i < int period - 1
      then (kValue, dValue,
            \<lparr>k_line = k_line out @ [None], d_line = d_line out @ [None],
             j_line = j_line out @ [None]\<rparr>)
      else
        let lo = fst (kdj_window data period i); hi = snd (kdj_window data period i);
            rsv = (if hi = lo then 50 else ((close (data ! i) - lo) / (hi - lo)) * 100);
            kValue' = (2 / 3) * kValue + (1 / 3) * rsv;
            dValue' = (2 / 3) * dValue + (1 / 3) * kValue';
            jValue = 3 * kValue' - 2 * dValue'
        in (kValue', dValue',
            \<lparr>k_line = k_line out @ [Some kValue'], d_line = d_line out @ [Some dValue'],
             j_line = j_line out @ [Some jValue]\<rparr>))"

definition calculateKDJ :: "KlineData list \<Rightarrow> nat \<Rightarrow> KDJ" where
  "calculateKDJ data period =
     snd (snd (fold (kdj_step data period) [0..<length data]
                 (50, 50, \<lparr>k_line = [], d_line = [], j_line = []\<rparr>)))"

subsection \<open>calculateSAR\<close>

text \<open>
  The loop state: the trend flag, the extreme point, the acceleration factor and the
  output array. \<^verbatim>\<open>sar[i - 1]!\<close> is a compile-time assertion only; a \<^verbatim>\<open>null\<close> there
  would count as 0 in the arithmetic.
\<close>

record sar_state =
  isUptrend :: bool
  ep :: real
  af :: real
  sar :: "real option list"

definition sar_init :: "KlineData list \<Rightarrow> real \<Rightarrow> sar_state" where
  "sar_init data startAf =
     (let up = close (data ! 0) > open_price (data ! 0) in
      \<lparr>isUptrend = up,
       ep = (if up then high (data ! 0) else low (data ! 0)),
       af = startAf,
       sar = (replicate (length data) None)[0 := Some (if up then low (data ! 0) else high (data ! 0))]\<rparr>)"

text \<open>The candidate stop of tick \<open>i\<close> after the clamp against the two previous candles.\<close>

definition sar_clamped :: "KlineData list \<Rightarrow> nat \<Rightarrow> sar_state \<Rightarrow> real" where
  "sar_clamped data i st =
     (let prevSar = (case sar st ! (i - 1) of Some v \<Rightarrow> v | None \<Rightarrow> 0);
          newSar = prevSar + af st * (ep st - prevSar)
      in
      if isUptrend st
      then (let low1 = low (data ! (i - 1));
                low2 = (if i > 1 then low (data ! (i - 2)) else low1);
                newSar1 = (if newSar > low1 then low1 else newSar)
            in if newSar1 > low2 then low2 else newSar1)
      else (let high1 = high (data ! (i - 1));
                high2 = (if i > 1 then high (data ! (i - 2)) else high1);
                newSar1 = (if newSar < high1 then high1 else newSar)
            in if newSar1 < high2 then high2 else newSar1))"

text \<open>
  The reversal test of tick \<open>i\<close> (the flag \<^verbatim>\<open>reversed\<close>) and the new-extreme test of
  the block under \<^verbatim>\<open>if (!reversed)\<close>.
\<close>

definition sar_reversal :: "KlineData list \<Rightarrow> nat \<Rightarrow> sar_state \<Rightarrow> bool" where
  "sar_reversal data i st =
     (if isUptrend st then low (data ! i) < sar_clamped data i st
      else high (data ! i) > sar_clamped data i st)"

definition sar_new_extreme :: "KlineData list \<Rightarrow> nat \<Rightarrow> sar_state \<Rightarrow> bool" where
  "sar_new_extreme data i st =
     (if isUptrend st then high (data ! i) > ep st else low (data ! i) < ep st)"

definition sar_step :: "KlineData list \<Rightarrow> real \<Rightarrow> real \<Rightarrow> nat \<Rightarrow> sar_state \<Rightarrow> sar_state" where
  "sar_step data startAf maxAf i st =
     (let reversed = sar_reversal data i st;
          newSar = (if reversed then ep st else sar_clamped data i st);
          st1 = (if reversed
                 then st\<lparr>isUptrend := \<not> isUptrend st,
                         ep := (if isUptrend st then low (data ! i) else high (data ! i)),
                         af := startAf\<rparr>
                 else st);
          st2 = (if \<not> reversed \<and> sar_new_extreme data i st1
                 then st1\<lparr>ep := (if isUptrend st1 then high (data ! i) else low (data ! i)),
                          af := min (af st1 + startAf) maxAf\<rparr>
                 else st1)
      in st2\<lparr>sar := (sar st2)[i := Some newSar]\<rparr>)"

text \<open>The loop state on entry to tick \<open>i\<close>, that is after the ticks \<open>1, ..., i - 1\<close>.\<close>

definition sar_state_before :: "KlineData list \<Rightarrow> real \<Rightarrow> real \<Rightarrow> nat \<Rightarrow> sar_state" where
  "sar_state_before data startAf maxAf i =
     fold (sar_step data startAf maxAf) [1..<i] (sar_init data startAf)"

definition calculateSAR :: "KlineData list \<Rightarrow> real \<Rightarrow> real \<Rightarrow> real option list" where
  "calculateSAR data startAf maxAf =
     (if length data = 0 then []
      else if length data < 5 then replicate (length data) None
      else sar (sar_state_before data startAf maxAf (length data)))"

text \<open>
  Test data: five candles on which the scan makes a new high at tick 1, neither event
  at tick 2 and a reversal at tick 3.
\<close>

definition sarDemo :: "KlineData list" where
  "sarDemo =
     [\<lparr>time = 0, open_price = 10, high = 12, low = 9, close = 11, volume = 1\<rparr>,
      \<lparr>time = 1, open_price = 11, high = 13, low = 10, close = 12, volume = 1\<rparr>,
      \<lparr>time = 2, open_price = 12, high = 12.5, low = 11, close = 12, volume = 1\<rparr>,
      \<lparr>time = 3, open_price = 12, high = 12, low = 8, close = 9, volume = 1\<rparr>,
      \<lparr>time = 4, open_price = 9, high = 9.5, low = 8.5, close = 9, volume = 1\<rparr>]"

section \<open>Ticker probes and the exchange selection of loadData\<close>

text \<open>
  \<^verbatim>\<open>TickerData\<close> is seven text fields and the exchange tag (its field \<^verbatim>\<open>volume\<close> is
  \<open>volume24h\<close> here, the candle having a field of the same name). Each of the five fetchers
  (\<^verbatim>\<open>fetchBinanceTicker\<close>, ...) requests its own URL, validates the answer and maps it
  with its own adapter, which sets \<^verbatim>\<open>exchange\<close> to the fetcher's literal. The request,
  the validation and the field extraction are not modelled: \<open>probe e\<close> is the outcome of
  fetcher \<open>e\<close>, either the error it rejects with or the seven fields its adapter
  extracted, and the fetcher adds the tag.
\<close>

record TickerFields =
  symbol :: string
  priceChange :: string
  priceChangePercent :: string
  lastPrice :: string
  highPrice :: string
  lowPrice :: string
  volume24h :: string

record TickerData = TickerFields +
  exchange :: ExchangeType

definition tagged :: "ExchangeType \<Rightarrow> TickerFields \<Rightarrow> TickerData" where
  "tagged e t =
     \<lparr>symbol = symbol t, priceChange = priceChange t,
      priceChangePercent = priceChangePercent t, lastPrice = lastPrice t,
      highPrice = highPrice t, lowPrice = lowPrice t, volume24h = volume24h t,
      exchange = e\<rparr>"

definition fetchTickerOf :: "(ExchangeType \<Rightarrow> error + TickerFields) \<Rightarrow> ExchangeType
    \<Rightarrow> error + TickerData" where
  "fetchTickerOf probe e =
     (case probe e of Inl err \<Rightarrow> Inl err | Inr t \<Rightarrow> Inr (tagged e t))"

definition fetchBinanceTicker :: "(ExchangeType \<Rightarrow> error + TickerFields) \<Rightarrow> error + TickerData" where
  "fetchBinanceTicker probe = fetchTickerOf probe Binance"

definition fetchBybitTicker :: "(ExchangeType \<Rightarrow> error + TickerFields) \<Rightarrow> error + TickerData" where
  "fetchBybitTicker probe = fetchTickerOf probe Bybit"

definition fetchMexcTicker :: "(ExchangeType \<Rightarrow> error + TickerFields) \<Rightarrow> error + TickerData" where
  "fetchMexcTicker probe = fetchTickerOf probe MEXC"

definition fetchGateTicker :: "(ExchangeType \<Rightarrow> error + TickerFields) \<Rightarrow> error + TickerData" where
  "fetchGateTicker probe = fetchTickerOf probe Gate"

definition fetchOkxTicker :: "(ExchangeType \<Rightarrow> error + TickerFields) \<Rightarrow> error + TickerData" where
  "fetchOkxTicker probe = fetchTickerOf probe OKX"

fun fetchTicker :: "(ExchangeType \<Rightarrow> error + TickerFields) \<Rightarrow> ExchangeType
    \<Rightarrow> error + TickerData" where
  "fetchTicker probe Binance = fetchBinanceTicker probe"
| "fetchTicker probe Bybit = fetchBybitTicker probe"
| "fetchTicker probe MEXC = fetchMexcTicker probe"
| "fetchTicker probe Gate = fetchGateTicker probe"
| "fetchTicker probe OKX = fetchOkxTicker probe"

text \<open>
  \<^verbatim>\<open>Promise.allSettled\<close> waits for every promise and reports each outcome in the order
  of its argument; it never rejects.
\<close>

datatype 'a settled = Fulfilled 'a | Rejected error

definition allSettled :: "(error + 'a) list \<Rightarrow> 'a settled list" where
  "allSettled ps = map (\<lambda>p. case p of Inl err \<Rightarrow> Rejected err | Inr v \<Rightarrow> Fulfilled v) ps"

definition fetchAvailableTickers :: "(ExchangeType \<Rightarrow> error + TickerFields) \<Rightarrow> TickerData list" where
  "fetchAvailableTickers probe =
     (let results = allSettled
            [fetchBinanceTicker probe, fetchBybitTicker probe, fetchMexcTicker probe,
             fetchGateTicker probe, fetchOkxTicker probe]
      in fold (\<lambda>res tickers. case res of Fulfilled v \<Rightarrow> tickers @ [v] | Rejected _ \<Rightarrow> tickers)
           results [])"

text \<open>
  The part of \<^verbatim>\<open>loadData\<close> that resolves the ticker and the target exchange. Its
  inputs are the forced exchange if any, the outcomes \<open>fast\<close> of the fast-path request,
  the outcomes \<open>probe\<close> of the five later requests of the slow path (the network may
  answer differently the second time), and whether the session's abort signal is set
  when the awaited request resolves. It ends in one of three ways: a silent \<^verbatim>\<open>return\<close>
  on abort, the \<^verbatim>\<open>catch\<close> block with the error thrown, or the chosen
  \<^verbatim>\<open>targetExchange\<close> and \<^verbatim>\<open>currentTicker\<close>.
\<close>

datatype resolution = Aborted | Failed error | Selected ExchangeType TickerData

definition slowPath :: "bool \<Rightarrow> (ExchangeType \<Rightarrow> error + TickerFields) \<Rightarrow> resolution" where
  "slowPath aborted probe =
     (let availableTickers = fetchAvailableTickers probe in
      if aborted then Aborted
      else if length availableTickers = 0 then Failed (Error ''Not found'')
      else Selected (exchange (availableTickers ! 0)) (availableTickers ! 0))"

definition resolveTicker :: "ExchangeType option \<Rightarrow> bool \<Rightarrow> (ExchangeType \<Rightarrow> error + TickerFields)
    \<Rightarrow> (ExchangeType \<Rightarrow> error + TickerFields) \<Rightarrow> resolution" where
  "resolveTicker forceExchange aborted fast probe =
     (let targetExchange = (case forceExchange of Some e \<Rightarrow> e | None \<Rightarrow> Binance) in
      case fetchTicker fast targetExchange of
        Inr currentTicker \<Rightarrow> (if aborted then Aborted else Selected targetExchange currentTicker)
      | Inl err \<Rightarrow> (if forceExchange \<noteq> None then Failed err else slowPath aborted probe))"

text \<open>The priority order of the probes, and test data for them.\<close>

definition priority :: "ExchangeType list" where
  "priority = [Binance, Bybit, MEXC, Gate, OKX]"

definition demoFields :: TickerFields where
  "demoFields =
     \<lparr>symbol = ''PEPEUSDT'', priceChange = ''0'', priceChangePercent = ''0'',
      lastPrice = ''1'', highPrice = ''1'', lowPrice = ''1'', volume24h = ''1''\<rparr>"

definition demoProbe :: "ExchangeType \<Rightarrow> error + TickerFields" where
  "demoProbe e = (if e = MEXC \<or> e = OKX then Inr demoFields else Inl (Error ''Direct fetch failed''))"

definition deadProbe :: "ExchangeType \<Rightarrow> error + TickerFields" where
  "deadProbe e = Inl (Error ''Proxy response missing contents'')"

section \<open>The snapshot fetcher (services/binanceService.ts)\<close>

text \<open>
  The module that \<^verbatim>\<open>App.tsx\<close> imports as \<^verbatim>\<open>services/binanceService\<close> is the second
  half of the source file \<^verbatim>\<open>services/geminiService.ts\<close>.
\<close>

text \<open>
  Parsed JSON values. An object is the list of its members; \<open>map_of\<close> reads a member,
  and a member that is absent reads as \<^verbatim>\<open>undefined\<close>, which is \<open>None\<close>.
\<close>

datatype json =
    JNull
  | JBool bool
  | JNum real
  | JStr string
  | JArr "json list"
  | JObj "(string \<times> json) list"

text \<open>
  What \<^verbatim>\<open>fetch\<close> resolves with: the \<^verbatim>\<open>ok\<close> flag, the status text and the body text.
\<close>

record response =
  ok :: bool
  statusText :: string
  body :: string

text \<open>
  The browser functions the service calls are parameters of the model, collected in one
  record:
  \<^item> \<open>fetch\<close> gives, for a URL, the response or the error the promise rejects with
    (a transport error). No function below requests the same URL twice, so a function of
    the URL is enough.
  \<^item> \<open>json_parse\<close> is \<^verbatim>\<open>JSON.parse\<close>, also behind \<^verbatim>\<open>res.json()\<close>: the parsed value
    or the SyntaxError.
  \<^item> \<open>encodeURIComponent\<close> is the function of that name.
  \<^item> \<open>toString\<close> is the string conversion that \<^verbatim>\<open>JSON.parse\<close> applies to an
    argument that is not a string.
  \<^item> \<open>parseFloat\<close>, \<open>parseInt\<close> and \<open>asNumber\<close> give the number read out of a JSON
    value or \<^verbatim>\<open>undefined\<close>; \<open>asNumber\<close> stands for a field stored without conversion
    (\<^verbatim>\<open>time: d[0]\<close>). Their results are taken to be finite, as the candle type
    requires. When the real \<^verbatim>\<open>parseFloat\<close> and \<^verbatim>\<open>parseInt\<close> throw instead is
    modelled apart, by \<open>toStringThrows\<close> below.
\<close>

record browser =
  fetch :: "string \<Rightarrow> error + response"
  json_parse :: "string \<Rightarrow> error + json"
  encodeURIComponent :: "string \<Rightarrow> string"
  toString :: "json \<Rightarrow> string"
  parseFloat :: "json option \<Rightarrow> real"
  parseInt :: "json option \<Rightarrow> int"
  asNumber :: "json option \<Rightarrow> int"

definition BINANCE_API :: string where "BINANCE_API = ''https://api.binance.com/api/v3''"
definition BYBIT_API :: string where "BYBIT_API = ''https://api.bybit.com/v5/market''"
definition MEXC_API :: string where "MEXC_API = ''https://api.mexc.com/api/v3''"
definition GATE_API :: string where "GATE_API = ''https://api.gateio.ws/api/v4''"
definition OKX_API :: string where "OKX_API = ''https://www.okx.com/api/v5/market''"
definition PROXY_URL :: string where "PROXY_URL = ''https://api.allorigins.win/get?url=''"

text \<open>
  Reading a named property \<^verbatim>\<open>v.key\<close>: it throws on \<^verbatim>\<open>null\<close>, reads the member of an
  object, and is \<^verbatim>\<open>undefined\<close> on every other value (the keys read below,
  \<^verbatim>\<open>contents\<close>, \<^verbatim>\<open>result\<close>, \<^verbatim>\<open>list\<close> and \<^verbatim>\<open>data\<close>, are no built-in property of a
  string, number, boolean or array).
\<close>

fun getProperty :: "json \<Rightarrow> string \<Rightarrow> error + json option" where
  "getProperty JNull key = Inl (TypeError ''Cannot read properties of null'')"
| "getProperty (JObj members) key = Inr (map_of members key)"
| "getProperty _ key = Inr None"

text \<open>JavaScript truthiness of a JSON value or \<^verbatim>\<open>undefined\<close>.\<close>

fun truthy :: "json option \<Rightarrow> bool" where
  "truthy None = False"
| "truthy (Some JNull) = False"
| "truthy (Some (JBool b)) = b"
| "truthy (Some (JNum x)) = (x \<noteq> 0)"
| "truthy (Some (JStr s)) = (s \<noteq> [])"
| "truthy (Some (JArr _)) = True"
| "truthy (Some (JObj _)) = True"

text \<open>
  \<^verbatim>\<open>JSON.parse\<close>, \<^verbatim>\<open>parseFloat\<close> and \<^verbatim>\<open>parseInt\<close> first convert their argument to
  a string. On a parsed JSON value that conversion throws a TypeError in one situation:
  an object with a member named \<^verbatim>\<open>toString\<close> (the member hides the inherited method
  and, coming from JSON, is not callable), or an array that holds such a value, since
  an array is converted by joining the conversions of its elements. \<^verbatim>\<open>undefined\<close>,
  \<^verbatim>\<open>null\<close>, booleans, numbers, strings and every other object convert.
\<close>

fun toStringThrows :: "json \<Rightarrow> bool" where
  "toStringThrows (JObj members) = (map_of members ''toString'' \<noteq> None)"
| "toStringThrows (JArr xs) = (\<exists>x\<in>set xs. toStringThrows x)"
| "toStringThrows _ = False"

text \<open>\<^verbatim>\<open>JSON.parse(v)\<close> for a value that need not be a string.\<close>

definition JSON_parse :: "browser \<Rightarrow> json \<Rightarrow> error + json" where
  "JSON_parse b v =
     (case v of
        JStr s \<Rightarrow> json_parse b s
      | _ \<Rightarrow> if toStringThrows v
             then Inl (TypeError ''Cannot convert object to primitive value'')
             else json_parse b (toString b v))"

text \<open>
  \<^verbatim>\<open>fetchWithFallback\<close>. The outer \<^verbatim>\<open>try\<close> block is \<open>directAttempt\<close>: everything thrown
  in it, the rejection of \<^verbatim>\<open>fetch\<close>, the explicit \<^verbatim>\<open>throw\<close> on a status that is not
  ok, and the rejection of \<^verbatim>\<open>res.json()\<close>, reaches the \<^verbatim>\<open>catch\<close>. The inner \<^verbatim>\<open>try\<close>
  block is \<open>proxyAttempt\<close>; its \<^verbatim>\<open>catch\<close> logs the error and throws it again. The
  function returns the list of the URLs it passed to \<^verbatim>\<open>fetch\<close>, in order, together
  with the outcome of the promise.
\<close>

definition directAttempt :: "browser \<Rightarrow> string \<Rightarrow> error + json" where
  "directAttempt b url =
     (case fetch b url of
        Inl err \<Rightarrow> Inl err
      | Inr res \<Rightarrow>
          if ok res then json_parse b (body res)
          else Inl (Error ''Direct fetch failed''))"

definition proxyUrlOf :: "browser \<Rightarrow> string \<Rightarrow> string" where
  "proxyUrlOf b url = PROXY_URL @ encodeURIComponent b url"

definition proxyAttempt :: "browser \<Rightarrow> string \<Rightarrow> error + json" where
  "proxyAttempt b url =
     (case fetch b (proxyUrlOf b url) of
        Inl err \<Rightarrow> Inl err
      | Inr res \<Rightarrow>
          if \<not> ok res then Inl (Error (''Proxy fetch failed: '' @ statusText res))
          else
            (case json_parse b (body res) of
               Inl err \<Rightarrow> Inl err
             | Inr proxyData \<Rightarrow>
                 (case getProperty proxyData ''contents'' of
                    Inl err \<Rightarrow> Inl err
                  | Inr contents \<Rightarrow>
                      (case contents of
                         Some c \<Rightarrow>
                           if truthy contents
                           then (case JSON_parse b c of
                                   Inr v \<Rightarrow> Inr v
                                 | Inl parseError \<Rightarrow> Inr c)
                           else Inl (Error ''Proxy response missing contents'')
                       | None \<Rightarrow> Inl (Error ''Proxy response missing contents'')))))"

definition fetchWithFallback :: "browser \<Rightarrow> string \<Rightarrow> string list \<times> (error + json)" where
  "fetchWithFallback b url =
     (case directAttempt b url of
        Inr v \<Rightarrow> ([url], Inr v)
      | Inl err \<Rightarrow> ([url, proxyUrlOf b url], proxyAttempt b url))"

text \<open>
  When the direct attempt counts as failed, in terms of what the network answered.
\<close>

definition directFailed :: "browser \<Rightarrow> string \<Rightarrow> bool" where
  "directFailed b url =
     (case fetch b url of
        Inl err \<Rightarrow> True
      | Inr res \<Rightarrow> \<not> ok res \<or> isl (json_parse b (body res)))"

section \<open>The candle batch fetch (services/binanceService.ts)\<close>

text \<open>
  \<^verbatim>\<open>ExchangeType\<close> is a union of string literals, erased at run time. Where the code
  compares the string (\<^verbatim>\<open>getExchangeSymbol\<close>, \<^verbatim>\<open>fetchKlines\<close>) the argument is a
  string here, so that a value outside the union can be given. The parameters
  \<^verbatim>\<open>symbol\<close> and \<^verbatim>\<open>exchange\<close> are written \<open>symb\<close> and \<open>exch\<close>, the full names being
  fields of the ticker record.
\<close>

fun exchangeName :: "ExchangeType \<Rightarrow> string" where
  "exchangeName Binance = ''Binance''"
| "exchangeName Bybit = ''Bybit''"
| "exchangeName MEXC = ''MEXC''"
| "exchangeName Gate = ''Gate''"
| "exchangeName OKX = ''OKX''"

text \<open>\<^verbatim>\<open>toUpperCase\<close> on ASCII text, and the decimal text of a natural number.\<close>

definition toUpperCase :: "string \<Rightarrow> string" where
  "toUpperCase s =
     map (\<lambda>c. let n = (of_char c :: nat) in if 97 \<le> n \<and> n \<le> 122 then char_of (n - 32) else c) s"

fun decimal :: "nat \<Rightarrow> string" where
  "decimal n =
     (if n < 10 then [char_of (48 + n)]
      else decimal (n div 10) @ [char_of (48 + n mod 10)])"

definition getExchangeSymbol :: "string \<Rightarrow> string \<Rightarrow> string" where
  "getExchangeSymbol symb exch =
     (let s = toUpperCase symb in
      if exch = ''Gate'' then s @ ''_USDT''
      else if exch = ''OKX'' then s @ ''-USDT''
      else s @ ''USDT'')"

text \<open>
  Reading an element \<^verbatim>\<open>d[k]\<close> of a row: it throws on \<^verbatim>\<open>null\<close>; on an array it is the
  element or \<^verbatim>\<open>undefined\<close>, on a string the one-character string, on an object the
  member named by the index; on a number or boolean it is \<^verbatim>\<open>undefined\<close>.
\<close>

fun element :: "json \<Rightarrow> nat \<Rightarrow> error + json option" where
  "element JNull k = Inl (TypeError ''Cannot read properties of null'')"
| "element (JArr xs) k = Inr (if k < length xs then Some (xs ! k) else None)"
| "element (JStr s) k = Inr (if k < length s then Some (JStr [s ! k]) else None)"
| "element (JObj members) k = Inr (map_of members (decimal k))"
| "element _ k = Inr None"

text \<open>
  \<^verbatim>\<open>rows.map(f)\<close> where \<open>f\<close> may throw: the first exception ends the map.
\<close>

fun mapRows :: "(json \<Rightarrow> error + KlineData) \<Rightarrow> json list \<Rightarrow> error + KlineData list" where
  "mapRows f [] = Inr []"
| "mapRows f (d # ds) =
     (case f d of
        Inl err \<Rightarrow> Inl err
      | Inr c \<Rightarrow> (case mapRows f ds of Inl err \<Rightarrow> Inl err | Inr cs \<Rightarrow> Inr (c # cs)))"

text \<open>
  \<^verbatim>\<open>parseFloat(v)\<close> and \<^verbatim>\<open>parseInt(v)\<close> on an element that was read from a row: the
  TypeError of the string conversion, or the number.
\<close>

definition elementAt :: "json \<Rightarrow> nat \<Rightarrow> json option" where
  "elementAt d k = (case element d k of Inl _ \<Rightarrow> None | Inr v \<Rightarrow> v)"

definition conversionThrows :: "json option \<Rightarrow> bool" where
  "conversionThrows v = (case v of None \<Rightarrow> False | Some j \<Rightarrow> toStringThrows j)"

definition parseFloatJS :: "browser \<Rightarrow> json option \<Rightarrow> error + real" where
  "parseFloatJS b v =
     (if conversionThrows v then Inl (TypeError ''Cannot convert object to primitive value'')
      else Inr (parseFloat b v))"

definition parseIntJS :: "browser \<Rightarrow> json option \<Rightarrow> error + int" where
  "parseIntJS b v =
     (if conversionThrows v then Inl (TypeError ''Cannot convert object to primitive value'')
      else Inr (parseInt b v))"

text \<open>Sequencing: the first exception ends the evaluation.\<close>

definition thenE :: "error + 'a \<Rightarrow> ('a \<Rightarrow> error + 'b) \<Rightarrow> error + 'b" where
  "thenE r f = (case r of Inl err \<Rightarrow> Inl err | Inr v \<Rightarrow> f v)"

text \<open>
  The row adapters. The fields of the object literal are evaluated in the order written.
  The first element read, \<^verbatim>\<open>d[0]\<close>, throws when the row is \<^verbatim>\<open>null\<close>; after it has been
  read the other reads cannot throw, but each \<^verbatim>\<open>parseFloat\<close> and \<^verbatim>\<open>parseInt\<close> can.
\<close>

definition standardRow :: "browser \<Rightarrow> json \<Rightarrow> error + KlineData" where
  "standardRow b d =
     (case element d 0 of
        Inl err \<Rightarrow> Inl err
      | Inr d0 \<Rightarrow>
          thenE (parseFloatJS b (elementAt d 1)) (\<lambda>openV.
          thenE (parseFloatJS b (elementAt d 2)) (\<lambda>highV.
          thenE (parseFloatJS b (elementAt d 3)) (\<lambda>lowV.
          thenE (parseFloatJS b (elementAt d 4)) (\<lambda>closeV.
          thenE (parseFloatJS b (elementAt d 5)) (\<lambda>volumeV.
          Inr \<lparr>time = asNumber b d0, open_price = openV, high = highV, low = lowV,
               close = closeV, volume = volumeV\<rparr>))))))"

definition bybitRow :: "browser \<Rightarrow> json \<Rightarrow> error + KlineData" where
  "bybitRow b d =
     (case element d 0 of
        Inl err \<Rightarrow> Inl err
      | Inr d0 \<Rightarrow>
          thenE (parseIntJS b d0) (\<lambda>timeV.
          thenE (parseFloatJS b (elementAt d 1)) (\<lambda>openV.
          thenE (parseFloatJS b (elementAt d 2)) (\<lambda>highV.
          thenE (parseFloatJS b (elementAt d 3)) (\<lambda>lowV.
          thenE (parseFloatJS b (elementAt d 4)) (\<lambda>closeV.
          thenE (parseFloatJS b (elementAt d 5)) (\<lambda>volumeV.
          Inr \<lparr>time = timeV, open_price = openV, high = highV, low = lowV,
               close = closeV, volume = volumeV\<rparr>)))))))"

definition gateRow :: "browser \<Rightarrow> json \<Rightarrow> error + KlineData" where
  "gateRow b d =
     (case element d 0 of
        Inl err \<Rightarrow> Inl err
      | Inr d0 \<Rightarrow>
          thenE (parseIntJS b d0) (\<lambda>timeV.
          thenE (parseFloatJS b (elementAt d 5)) (\<lambda>openV.
          thenE (parseFloatJS b (elementAt d 3)) (\<lambda>highV.
          thenE (parseFloatJS b (elementAt d 4)) (\<lambda>lowV.
          thenE (parseFloatJS b (elementAt d 2)) (\<lambda>closeV.
          thenE (parseFloatJS b (elementAt d 1)) (\<lambda>volumeV.
          Inr \<lparr>time = timeV * 1000, open_price = openV, high = highV, low = lowV,
               close = closeV, volume = volumeV\<rparr>)))))))"

definition okxRow :: "browser \<Rightarrow> json \<Rightarrow> error + KlineData" where
  "okxRow b d =
     (case element d 0 of
        Inl err \<Rightarrow> Inl err
      | Inr d0 \<Rightarrow>
          thenE (parseIntJS b d0) (\<lambda>timeV.
          thenE (parseFloatJS b (elementAt d 1)) (\<lambda>openV.
          thenE (parseFloatJS b (elementAt d 2)) (\<lambda>highV.
          thenE (parseFloatJS b (elementAt d 3)) (\<lambda>lowV.
          thenE (parseFloatJS b (elementAt d 4)) (\<lambda>closeV.
          thenE (parseFloatJS b (elementAt d 6)) (\<lambda>volumeV.
          Inr \<lparr>time = timeV, open_price = openV, high = highV, low = lowV,
               close = closeV, volume = volumeV\<rparr>)))))))"

text \<open>The interval tokens of Bybit and OKX.\<close>

definition endsWith_m :: "string \<Rightarrow> bool" where
  "endsWith_m interval = (interval \<noteq> [] \<and> last interval = CHR ''m'')"

definition bybitIntervalOf :: "string \<Rightarrow> string" where
  "bybitIntervalOf interval =
     (let i0 = interval;
          i1 = (if endsWith_m interval then remove1 (CHR ''m'') interval else i0);
          i2 = (if interval = ''1h'' then ''60'' else i1);
          i3 = (if interval = ''4h'' then ''240'' else i2);
          i4 = (if interval = ''1d'' then ''D'' else i3);
          i5 = (if interval = ''1w'' then ''W'' else i4)
      in if interval = ''1M'' then ''M'' else i5)"

definition okxIntervalOf :: "string \<Rightarrow> string" where
  "okxIntervalOf interval =
     (let i0 = interval;
          i1 = (if interval = ''1h'' then ''1H'' else i0);
          i2 = (if interval = ''4h'' then ''4H'' else i1)
      in if interval = ''1d'' then ''1D'' else i2)"

text \<open>The request URL of each of the five branches.\<close>

definition klinesUrl :: "string \<Rightarrow> string \<Rightarrow> nat \<Rightarrow> string \<Rightarrow> string" where
  "klinesUrl symb interval limit exch =
     (let formattedSymbol = getExchangeSymbol symb exch in
      if exch = ''Binance''
      then BINANCE_API @ ''/klines?symbol='' @ formattedSymbol @ ''&interval='' @ interval
             @ ''&limit='' @ decimal limit
      else if exch = ''Bybit''
      then BYBIT_API @ ''/kline?category=spot&symbol='' @ formattedSymbol @ ''&interval=''
             @ bybitIntervalOf interval @ ''&limit='' @ decimal limit
      else if exch = ''MEXC''
      then MEXC_API @ ''/klines?symbol='' @ formattedSymbol @ ''&interval='' @ interval
             @ ''&limit='' @ decimal limit
      else if exch = ''Gate''
      then GATE_API @ ''/spot/candlesticks?currency_pair='' @ formattedSymbol @ ''&interval=''
             @ interval @ ''&limit='' @ decimal limit
      else OKX_API @ ''/candles?instId='' @ formattedSymbol @ ''&bar='' @ okxIntervalOf interval
             @ ''&limit='' @ decimal limit)"

text \<open>
  What each branch does with the fetched value. \<^verbatim>\<open>data.result?.list\<close> throws when
  \<^verbatim>\<open>data\<close> is \<^verbatim>\<open>null\<close> and is \<^verbatim>\<open>undefined\<close> when \<^verbatim>\<open>data.result\<close> is \<^verbatim>\<open>null\<close> or
  \<^verbatim>\<open>undefined\<close>; \<^verbatim>\<open>data.data\<close> throws when \<^verbatim>\<open>data\<close> is \<^verbatim>\<open>null\<close>.
\<close>

definition decodeKlines :: "browser \<Rightarrow> string \<Rightarrow> json \<Rightarrow> error + KlineData list" where
  "decodeKlines b exch data =
     (if exch = ''Binance''
      then (case data of JArr rows \<Rightarrow> mapRows (standardRow b) rows
            | _ \<Rightarrow> Inl (Error ''Invalid Binance Data''))
      else if exch = ''Bybit''
      then (case getProperty data ''result'' of
              Inl err \<Rightarrow> Inl err
            | Inr result \<Rightarrow>
                (case (case result of
                         None \<Rightarrow> None
                       | Some JNull \<Rightarrow> None
                       | Some r \<Rightarrow> (case getProperty r ''list'' of Inl _ \<Rightarrow> None | Inr l \<Rightarrow> l)) of
                   Some (JArr list) \<Rightarrow> mapRows (bybitRow b) (rev list)
                 | _ \<Rightarrow> Inl (Error ''Invalid Bybit Data'')))
      else if exch = ''MEXC''
      then (case data of JArr rows \<Rightarrow> mapRows (standardRow b) rows
            | _ \<Rightarrow> Inl (Error ''Invalid MEXC Data''))
      else if exch = ''Gate''
      then (case data of JArr rows \<Rightarrow> mapRows (gateRow b) rows
            | _ \<Rightarrow> Inl (Error ''Invalid Gate Data''))
      else (case getProperty data ''data'' of
              Inl err \<Rightarrow> Inl err
            | Inr (Some (JArr rows)) \<Rightarrow> mapRows (okxRow b) (rev rows)
            | Inr _ \<Rightarrow> Inl (Error ''Invalid OKX Data'')))"

text \<open>
  The body of the \<^verbatim>\<open>try\<close> block of \<^verbatim>\<open>fetchKlines\<close>, with \<open>Inl\<close> for what it throws,
  and the function itself, whose result is the settled promise: \<open>Inl\<close> would be a
  rejection. The \<^verbatim>\<open>catch\<close> block logs the error and returns the empty array; when no
  branch matches the exchange, control leaves the \<^verbatim>\<open>try\<close> block and the final
  \<^verbatim>\<open>return []\<close> is reached.
\<close>

definition knownExchange :: "string \<Rightarrow> bool" where
  "knownExchange exch = (exch \<in> set (map exchangeName [Binance, Bybit, MEXC, Gate, OKX]))"

definition fetchKlines_try :: "browser \<Rightarrow> string \<Rightarrow> string \<Rightarrow> nat \<Rightarrow> string
    \<Rightarrow> error + KlineData list" where
  "fetchKlines_try b symb interval limit exch =
     (if knownExchange exch
      then (case snd (fetchWithFallback b (klinesUrl symb interval limit exch)) of
              Inl err \<Rightarrow> Inl err
            | Inr data \<Rightarrow> decodeKlines b exch data)
      else Inr [])"

definition fetchKlines :: "browser \<Rightarrow> string \<Rightarrow> string \<Rightarrow> nat \<Rightarrow> string
    \<Rightarrow> error + KlineData list" where
  "fetchKlines b symb interval limit exch =
     (case fetchKlines_try b symb interval limit exch of
        Inl err \<Rightarrow> Inr []
      | Inr klines \<Rightarrow> Inr klines)"

text \<open>
  Three descriptions used to state what \<^verbatim>\<open>fetchKlines\<close> returns. \<open>klineRows\<close> is the
  list of rows that the branch of an exchange maps, in the order it maps them, when the
  fetched value has the array the branch looks for, and \<open>None\<close> when it has not.
  \<open>klineRow\<close> is the row adapter of the branch. \<open>rowThrows\<close> says when mapping a
  row throws: the row is \<^verbatim>\<open>null\<close>, or the string conversion of one of the elements the
  adapter converts throws.
\<close>

definition klineRows :: "string \<Rightarrow> json \<Rightarrow> json list option" where
  "klineRows exch data =
     (if exch = ''Bybit''
      then (case data of
              JObj members \<Rightarrow>
                (case map_of members ''result'' of
                   Some (JObj resultMembers) \<Rightarrow>
                     (case map_of resultMembers ''list'' of
                        Some (JArr list) \<Rightarrow> Some (rev list)
                      | _ \<Rightarrow> None)
                 | _ \<Rightarrow> None)
            | _ \<Rightarrow> None)
      else if exch = ''OKX''
      then (case data of
              JObj members \<Rightarrow>
                (case map_of members ''data'' of
                   Some (JArr list) \<Rightarrow> Some (rev list)
                 | _ \<Rightarrow> None)
            | _ \<Rightarrow> None)
      else (case data of JArr rows \<Rightarrow> Some rows | _ \<Rightarrow> None))"

definition klineRow :: "browser \<Rightarrow> string \<Rightarrow> json \<Rightarrow> error + KlineData" where
  "klineRow b exch d =
     (if exch = ''Bybit'' then bybitRow b d
      else if exch = ''Gate'' then gateRow b d
      else if exch = ''OKX'' then okxRow b d
      else standardRow b d)"

definition convertedElements :: "string \<Rightarrow> nat list" where
  "convertedElements exch =
     (if exch = ''Bybit'' then [0, 1, 2, 3, 4, 5]
      else if exch = ''Gate'' then [0, 5, 3, 4, 2, 1]
      else if exch = ''OKX'' then [0, 1, 2, 3, 4, 6]
      else [1, 2, 3, 4, 5])"

definition rowThrows :: "string \<Rightarrow> json \<Rightarrow> bool" where
  "rowThrows exch d =
     (d = JNull \<or> (\<exists>k\<in>set (convertedElements exch). conversionThrows (elementAt d k)))"

section \<open>Test data for the services\<close>

text \<open>
  Percent-encoding as \<^verbatim>\<open>encodeURIComponent\<close> does it on ASCII text: letters, digits
  and \<^verbatim>\<open>- _ . ! ~ * ' ( )\<close> are kept, any other character becomes \<^verbatim>\<open>%XX\<close>.
\<close>

definition unreserved :: "char \<Rightarrow> bool" where
  "unreserved c =
     (let n = (of_char c :: nat) in
      (48 \<le> n \<and> n \<le> 57) \<or> (65 \<le> n \<and> n \<le> 90) \<or> (97 \<le> n \<and> n \<le> 122) \<or>
      n \<in> set [45, 95, 46, 33, 126, 42, 39, 40, 41])"

definition hexDigit :: "nat \<Rightarrow> char" where
  "hexDigit n = (if n < 10 then char_of (48 + n) else char_of (55 + n))"

definition percentEncode :: "string \<Rightarrow> string" where
  "percentEncode s =
     concat (map (\<lambda>c. if unreserved c then [c]
                       else [CHR ''%'', hexDigit ((of_char c :: nat) div 16),
                             hexDigit ((of_char c :: nat) mod 16)]) s)"

definition numberOf :: "json option \<Rightarrow> real" where
  "numberOf v = (case v of Some (JNum x) \<Rightarrow> x | _ \<Rightarrow> 0)"

text \<open>
  The networks of the examples. In \<open>corsBrowser\<close> every direct request is refused and the relay
  answers every request with an envelope whose contents parse to one candle row. In
  \<open>htmlBrowser\<close> the direct request is answered with status ok and a body that is not
  JSON. In \<open>offlineBrowser\<close> every request is refused. In \<open>onlineBrowser\<close> the
  direct request is answered with the candle row, and in \<open>noticeBrowser\<close> with a JSON
  string instead of an array. \<open>emptyBrowser\<close> is \<open>corsBrowser\<close> with a relay whose
  envelope holds the empty string as contents, and \<open>bareBrowser\<close> with a relay whose
  envelope has no contents. In \<open>refusedBrowser\<close> every request, the relay included, is
  answered with a status that is not ok. \<open>answering bodyText\<close> answers every direct request
  with status ok and the given body.
\<close>

definition demoUrl :: string where
  "demoUrl = ''https://x.io/k?s=A B''"

definition demoParse :: "string \<Rightarrow> error + json" where
  "demoParse s =
     (if s = ''ENVELOPE'' then Inr (JObj [(''contents'', JStr ''ROWS'')])
      else if s = ''ROWS''
      then Inr (JArr [JArr [JNum 1700000000000, JNum 10, JNum 12, JNum 9, JNum 11, JNum 5]])
      else if s = ''NOTICE'' then Inr (JStr ''Too many requests'')
      else if s = ''EMPTY'' then Inr (JObj [(''contents'', JStr [])])
      else if s = ''BARE'' then Inr (JObj [(''status'', JNum 200)])
      else if s = ''SCALARS'' then Inr (JArr [JNum 5, JStr ''x''])
      else if s = ''REFUSAL''
      then Inr (JObj [(''code'', JNum (- 1121)), (''msg'', JStr ''Invalid symbol.'')])
      else if s = ''SPIKED''
      then Inr (JArr [JArr [JNum 1, JNum 2, JObj [(''toString'', JNum 5)]]])
      else if s = ''HOLE'' then Inr (JArr [JNull])
      else Inl (SyntaxError ''Unexpected token''))"

definition viaRelay :: "string \<Rightarrow> bool" where
  "viaRelay u = (take (length PROXY_URL) u = PROXY_URL)"

definition corsBrowser :: browser where
  "corsBrowser =
     \<lparr>fetch = (\<lambda>u. if viaRelay u
                     then Inr \<lparr>ok = True, statusText = ''OK'', body = ''ENVELOPE''\<rparr>
                     else Inl (TypeError ''Failed to fetch'')),
      json_parse = demoParse,
      encodeURIComponent = percentEncode,
      toString = (\<lambda>v. ''[object Object]''),
      parseFloat = numberOf,
      parseInt = (\<lambda>v. \<lfloor>numberOf v\<rfloor>),
      asNumber = (\<lambda>v. \<lfloor>numberOf v\<rfloor>)\<rparr>"

definition htmlBrowser :: browser where
  "htmlBrowser =
     corsBrowser\<lparr>fetch := (\<lambda>u. if viaRelay u
                                 then Inr \<lparr>ok = True, statusText = ''OK'', body = ''ENVELOPE''\<rparr>
                                 else Inr \<lparr>ok = True, statusText = ''OK'', body = ''HTML''\<rparr>)\<rparr>"

definition offlineBrowser :: browser where
  "offlineBrowser = corsBrowser\<lparr>fetch := (\<lambda>u. Inl (TypeError ''Failed to fetch''))\<rparr>"

definition onlineBrowser :: browser where
  "onlineBrowser =
     corsBrowser\<lparr>fetch := (\<lambda>u. Inr \<lparr>ok = True, statusText = ''OK'', body = ''ROWS''\<rparr>)\<rparr>"

definition noticeBrowser :: browser where
  "noticeBrowser =
     corsBrowser\<lparr>fetch := (\<lambda>u. Inr \<lparr>ok = True, statusText = ''OK'', body = ''NOTICE''\<rparr>)\<rparr>"

definition emptyBrowser :: browser where
  "emptyBrowser =
     corsBrowser\<lparr>fetch := (\<lambda>u. if viaRelay u
                                 then Inr \<lparr>ok = True, statusText = ''OK'', body = ''EMPTY''\<rparr>
                                 else Inl (TypeError ''Failed to fetch''))\<rparr>"

definition bareBrowser :: browser where
  "bareBrowser =
     corsBrowser\<lparr>fetch := (\<lambda>u. if viaRelay u
                                 then Inr \<lparr>ok = True, statusText = ''OK'', body = ''BARE''\<rparr>
                                 else Inl (TypeError ''Failed to fetch''))\<rparr>"

definition refusedBrowser :: browser where
  "refusedBrowser =
     corsBrowser\<lparr>fetch := (\<lambda>u. Inr \<lparr>ok = False, statusText = ''Bad Gateway'', body = []\<rparr>)\<rparr>"

definition answering :: "string \<Rightarrow> browser" where
  "answering bodyText =
     corsBrowser\<lparr>fetch := (\<lambda>u. Inr \<lparr>ok = True, statusText = ''OK'', body = bodyText\<rparr>)\<rparr>"

definition demoRows :: json where
  "demoRows = JArr [JArr [JNum 1700000000000, JNum 10, JNum 12, JNum 9, JNum 11, JNum 5]]"

definition demoCandle :: KlineData where
  "demoCandle =
     \<lparr>time = 1700000000000, open_price = 10, high = 12, low = 9, close = 11, volume = 5\<rparr>"

section \<open>Properties of the stream merge\<close>

lemma length_seriesUpTo: "length (seriesUpTo n) = n"
  by (simp add: seriesUpTo_def)

lemma last_seriesUpTo: "0 < n \<Longrightarrow> last (seriesUpTo n) = candleAt (int n - 1)"
  by (cases n) (simp_all add: seriesUpTo_def)

lemma seriesUpTo_not_Nil: "0 < n \<Longrightarrow> seriesUpTo n \<noteq> []"
  by (simp add: seriesUpTo_def)

lemma time_candleAt: "time (candleAt t) = t"
  by (simp add: candleAt_def)

lemma strictly_increasing_seriesUpTo: "strictly_increasing (seriesUpTo n)"
proof -
  have "map time (seriesUpTo n) = map int [0..<n]"
    by (simp add: seriesUpTo_def time_candleAt)
  moreover have "sorted_wrt (<) (map int [0..<n])"
    by (simp add: sorted_wrt_map sorted_wrt_upt)
  ultimately show ?thesis
    by (simp add: strictly_increasing_def)
qed

text \<open>
  Claim C10. When the series is empty at the moment a streamed candle arrives, the
  callback returns at once: the candle is dropped and the series stays empty.
\<close>

theorem mergeOne_empty_discards: "mergeOne [] newCandle = []"
  by (simp add: mergeOne_def)

text \<open>
  Claim C1 as written fails at two inputs. On the empty series the candle is not
  appended (the guard of C10), and on a series of exactly 500 candles a candle with a
  new time is appended without eviction, so the series grows to 501: the eviction test
  is \<^verbatim>\<open>currentData.length > 500\<close>, which a series of length 500 does not satisfy.
\<close>

theorem mergeOne_claim_counterexample:
  "length (mergeOne [] (candleAt 0)) = 0 \<and>
   length (seriesUpTo 500) = 500 \<and>
   time (candleAt 500) \<noteq> time (last (seriesUpTo 500)) \<and>
   length (mergeOne (seriesUpTo 500) (candleAt 500)) = 501"
  by (simp add: mergeOne_def length_seriesUpTo last_seriesUpTo time_candleAt)

text \<open>
  Claim C1, amended. The empty series is left unchanged. On a non-empty series: a candle
  whose time equals the last stored candle's time replaces the last element and the
  length is unchanged; a candle with another time is appended (length + 1) while the
  series holds fewer than 500 candles, and so the length stays within 500; on a series
  longer than 500 the oldest element is evicted and the length is unchanged. Nothing is
  said about a new time arriving at a series of exactly 500 candles.
\<close>

theorem mergeOne_cases:
  "(xs = [] \<longrightarrow> mergeOne xs c = xs) \<and>
   (xs \<noteq> [] \<and> time c = time (last xs) \<longrightarrow>
      mergeOne xs c = butlast xs @ [c] \<and> length (mergeOne xs c) = length xs) \<and>
   (xs \<noteq> [] \<and> time c \<noteq> time (last xs) \<and> length xs < 500 \<longrightarrow>
      mergeOne xs c = xs @ [c] \<and> length (mergeOne xs c) = length xs + 1 \<and>
      length (mergeOne xs c) \<le> 500) \<and>
   (xs \<noteq> [] \<and> time c \<noteq> time (last xs) \<and> length xs > 500 \<longrightarrow>
      mergeOne xs c = tl xs @ [c] \<and> length (mergeOne xs c) = length xs)"
  by (simp add: mergeOne_def)

theorem mergeOne_cases_witness:
  "mergeOne [] (candleAt 7) = [] \<and>
   mergeOne (seriesUpTo 3) (candleAt 2) = butlast (seriesUpTo 3) @ [candleAt 2] \<and>
   length (mergeOne (seriesUpTo 3) (candleAt 2)) = 3 \<and>
   mergeOne (seriesUpTo 3) (candleAt 3) = seriesUpTo 3 @ [candleAt 3] \<and>
   length (mergeOne (seriesUpTo 3) (candleAt 3)) = 4 \<and>
   mergeOne (seriesUpTo 501) (candleAt 501) = tl (seriesUpTo 501) @ [candleAt 501] \<and>
   length (mergeOne (seriesUpTo 501) (candleAt 501)) = 501"
  using mergeOne_cases [of "[]" "candleAt 7"]
    mergeOne_cases [of "seriesUpTo 3" "candleAt 2"]
    mergeOne_cases [of "seriesUpTo 3" "candleAt 3"]
    mergeOne_cases [of "seriesUpTo 501" "candleAt 501"]
  by (simp add: length_seriesUpTo last_seriesUpTo seriesUpTo_not_Nil time_candleAt)

section \<open>The series invariant\<close>

lemma sorted_wrt_less_le_last:
  "sorted_wrt (<) ys \<Longrightarrow> y \<in> set ys \<Longrightarrow> (y::int) \<le> last ys"
  by (induction ys) (auto simp: less_imp_le)

lemma sorted_wrt_less_butlast_last:
  "sorted_wrt (<) ys \<Longrightarrow> y \<in> set (butlast ys) \<Longrightarrow> (y::int) < last ys"
  by (induction ys) (auto split: if_splits dest: in_set_butlastD)

lemma sorted_wrt_butlast: "sorted_wrt P ys \<Longrightarrow> sorted_wrt P (butlast ys)"
  by (induction ys) (auto dest: in_set_butlastD)

lemma sorted_wrt_tl: "sorted_wrt P ys \<Longrightarrow> sorted_wrt P (tl ys)"
  by (cases ys) auto

text \<open>
  Claim C4 as written fails for the stream merge: the callback compares the incoming
  time with the last stored time for equality only, so a candle older than the last one
  is appended behind it.
\<close>

theorem series_invariant_counterexample:
  "strictly_increasing (seriesUpTo 2) \<and>
   time (candleAt 0) < time (last (seriesUpTo 2)) \<and>
   \<not> strictly_increasing (mergeOne (seriesUpTo 2) (candleAt 0))"
  by (simp add: strictly_increasing_seriesUpTo last_seriesUpTo time_candleAt mergeOne_def
        length_seriesUpTo)
     (simp add: seriesUpTo_def strictly_increasing_def time_candleAt upt_rec)

text \<open>
  Claim C4, amended. The bulk replace stores the fetched list as it is, so the series is
  strictly increasing afterwards exactly when the fetched list is. The stream merge keeps
  a strictly increasing series strictly increasing, and so with at most one candle per
  time, whenever the incoming candle is not older than the last stored one.
\<close>

theorem series_invariant_preserved:
  assumes inc: "strictly_increasing xs"
    and fresh: "xs \<noteq> [] \<longrightarrow> time (last xs) \<le> time c"
  shows "(strictly_increasing (replaceAll xs klines) = strictly_increasing klines) \<and>
    strictly_increasing (mergeOne xs c) \<and> distinct (map time (mergeOne xs c))"
proof -
  have r: "strictly_increasing (replaceAll xs klines) = strictly_increasing klines"
    by (simp add: replaceAll_def)
  let ?ts = "map time xs"
  have s: "sorted_wrt (<) ?ts" using inc by (simp add: strictly_increasing_def)
  have m: "strictly_increasing (mergeOne xs c)"
  proof (cases "xs = []")
    case True
    then show ?thesis by (simp add: mergeOne_def strictly_increasing_def)
  next
    case False
    then have lastt: "last ?ts = time (last xs)" by (simp add: last_map)
    have le: "time (last xs) \<le> time c" using fresh False by simp
    show ?thesis
    proof (cases "time c = time (last xs)")
      case True
      have "\<forall>y\<in>set (butlast ?ts). y < time c"
        using sorted_wrt_less_butlast_last [OF s] lastt True by simp
      then have "sorted_wrt (<) (butlast ?ts @ [time c])"
        using sorted_wrt_butlast [OF s] by (simp add: sorted_wrt_append)
      then show ?thesis using False True
        by (simp add: mergeOne_def strictly_increasing_def map_butlast)
    next
      case neq: False
      then have lt: "time (last xs) < time c" using le by simp
      have all: "\<forall>y\<in>set ?ts. y < time c"
        using sorted_wrt_less_le_last [OF s] lastt lt by fastforce
      have "\<forall>y\<in>set (tl ?ts). y < time c"
        using all False by (cases xs) auto
      then have a: "sorted_wrt (<) (tl ?ts @ [time c])"
        using sorted_wrt_tl [OF s] by (simp add: sorted_wrt_append)
      have b: "sorted_wrt (<) (?ts @ [time c])"
        using s all by (simp add: sorted_wrt_append)
      show ?thesis using False neq a b
        by (simp add: mergeOne_def strictly_increasing_def map_tl)
    qed
  qed
  then have "distinct (map time (mergeOne xs c))"
    by (simp add: strictly_increasing_def strict_sorted_iff)
  then show ?thesis using r m by simp
qed

theorem series_invariant_preserved_witness:
  "strictly_increasing (seriesUpTo 3) \<and>
   time (last (seriesUpTo 3)) \<le> time (candleAt 3) \<and>
   strictly_increasing (replaceAll (seriesUpTo 3) (seriesUpTo 2)) \<and>
   strictly_increasing (mergeOne (seriesUpTo 3) (candleAt 3)) \<and>
   distinct (map time (mergeOne (seriesUpTo 3) (candleAt 3)))"
  using series_invariant_preserved [of "seriesUpTo 3" "candleAt 3" "seriesUpTo 2"]
  by (simp add: strictly_increasing_seriesUpTo last_seriesUpTo time_candleAt)

section \<open>Properties of the indicator engine\<close>

subsection \<open>calculateEMA\<close>

lemma ema_sum_take:
  "i < length data \<Longrightarrow> ema_sum data i = sum_list (map close (take (Suc i) data))"
proof -
  have "n \<le> length data \<Longrightarrow>
        fold (\<lambda>j sum. sum + close (data ! j)) [0..<n] 0 = sum_list (map close (take n data))" for n
    by (induction n) (simp_all add: take_Suc_conv_app_nth)
  then show "i < length data \<Longrightarrow> ?thesis" by (simp add: ema_sum_def del: upt_Suc)
qed

lemma ema_step_length: "length (snd (ema_step data p i st)) = Suc (length (snd st))"
  by (simp add: ema_step_def Let_def)

lemma ema_step_nth_old:
  "j < length (snd st) \<Longrightarrow> snd (ema_step data p i st) ! j = snd st ! j"
  by (simp add: ema_step_def Let_def nth_append)

lemma ema_step_seed:
  "p = Suc i \<Longrightarrow> length (snd st) = i \<Longrightarrow>
   snd (ema_step data p i st) ! i = Some (ema_sum data i / real p)"
  by (auto simp: ema_step_def Let_def nth_append)

lemma ema_fold_length:
  "length (snd (fold (ema_step data p) [0..<n] (e0, []))) = n"
  by (induction n) (simp_all add: ema_step_length)

lemma ema_fold_seed:
  assumes "1 \<le> p" "p \<le> n" "n \<le> length data"
  shows "snd (fold (ema_step data p) [0..<n] (e0, [])) ! (p - 1)
         = Some (sum_list (map close (take p data)) / real p)"
  using assms
proof (induction n)
  case 0
  then show ?case by simp
next
  case (Suc n)
  let ?S = "fold (ema_step data p) [0..<n] (e0, [])"
  have len: "length (snd ?S) = n" by (rule ema_fold_length)
  have unfold: "fold (ema_step data p) [0..<Suc n] (e0, []) = ema_step data p n ?S"
    by simp
  show ?case
  proof (cases "p = Suc n")
    case True
    have "ema_sum data n = sum_list (map close (take p data))"
      using True Suc.prems ema_sum_take [of n data] by simp
    then show ?thesis
      using True ema_step_seed [OF True len, of data] unfold by simp
  next
    case False
    then have "p \<le> n" using Suc.prems by simp
    then have ih: "snd ?S ! (p - 1) = Some (sum_list (map close (take p data)) / real p)"
      using Suc by simp
    have "p - 1 < length (snd ?S)" using \<open>p \<le> n\<close> \<open>1 \<le> p\<close> len by simp
    then show ?thesis using ih ema_step_nth_old [of "p - 1" ?S data p n] unfold by simp
  qed
qed

text \<open>
  Claim C6. For a period \<open>p \<ge> 1\<close> and a series of at least \<open>p\<close> candles,
  \<^verbatim>\<open>calculateEMA\<close> returns an array as long as the series whose entry at index
  \<open>p - 1\<close> is the arithmetic mean of the first \<open>p\<close> closes.
\<close>

theorem calculateEMA_seed_is_mean:
  assumes "1 \<le> p" and "p \<le> length data"
  shows "\<exists>out. calculateEMA data p = Inr out \<and> length out = length data \<and>
           out ! (p - 1) = Some (sum_list (map close (take p data)) / real p)"
proof (cases data)
  case Nil
  then show ?thesis using assms by simp
next
  case (Cons d0 ds)
  then have "calculateEMA data p =
      Inr (snd (fold (ema_step data p) [0..<length data] (close d0, [])))"
    by (simp add: calculateEMA_def)
  then show ?thesis
    using ema_fold_length [of data p "length data" "close d0"]
      ema_fold_seed [OF assms(1) assms(2) order_refl, of "close d0"] by simp
qed

theorem calculateEMA_seed_is_mean_witness:
  "(1::nat) \<le> 3 \<and> 3 \<le> length (seriesUpTo 4) \<and>
   (\<exists>out. calculateEMA (seriesUpTo 4) 3 = Inr out \<and> length out = 4 \<and>
      out ! 2 = Some ((1 + 1 + 1) / 3))"
  using calculateEMA_seed_is_mean [of 3 "seriesUpTo 4"]
  by (simp add: length_seriesUpTo)
     (simp add: seriesUpTo_def candleAt_def upt_rec)

text \<open>
  Claim C3 holds for three of the four functions and fails for \<^verbatim>\<open>calculateEMA\<close>: on
  the empty series \<^verbatim>\<open>calculateRSI\<close>, \<^verbatim>\<open>calculateKDJ\<close> and \<^verbatim>\<open>calculateSAR\<close> return
  empty outputs, while \<^verbatim>\<open>calculateEMA\<close> reads \<^verbatim>\<open>data[0].close\<close> before its loop and
  throws.
\<close>

theorem indicators_on_empty_input:
  "calculateEMA [] period =
     Inl (TypeError ''Cannot read properties of undefined (reading close)'') \<and>
   calculateRSI [] period = [] \<and>
   calculateKDJ [] period = \<lparr>k_line = [], d_line = [], j_line = []\<rparr> \<and>
   calculateSAR [] startAf maxAf = []"
  by (simp add: calculateEMA_def calculateRSI_def calculateKDJ_def calculateSAR_def)

subsection \<open>calculateRSI\<close>

text \<open>
  The value computed from the two averages: it is in \<open>[0, 100]\<close> when the average loss
  is positive, it is 100 when the average loss is zero and the average gain is positive
  (through \<open>rs = Infinity\<close>), and it is NaN when both are zero (\<open>rs = 0 / 0\<close>).
\<close>

lemma rsi_value_positive_loss:
  assumes "0 \<le> g" and "0 < l"
  shows "\<exists>r. rsi_value (Fin g) (Fin l) = Fin r \<and> 0 \<le> r \<and> r \<le> 100"
proof -
  have pos: "0 < 1 + g / l" using assms by (simp add: add_pos_nonneg)
  then have v: "rsi_value (Fin g) (Fin l) = Fin (100 - 100 / (1 + g / l))"
    using assms by (simp add: rsi_value_def jsub_def)
  have "100 / (1 + g / l) \<le> 100" using assms pos by (simp add: divide_le_eq)
  moreover have "0 \<le> 100 / (1 + g / l)" using pos by simp
  ultimately show ?thesis using v by simp
qed

lemma rsi_value_zero_loss: "0 < g \<Longrightarrow> rsi_value (Fin g) (Fin 0) = Fin 100"
  by (simp add: rsi_value_def jsub_def inf_signed_def)

lemma rsi_value_flat: "rsi_value (Fin 0) (Fin 0) = NaN"
  by (simp add: rsi_value_def jsub_def)

text \<open>
  Claim C2 fails on a flat window. For 15 candles that all close at 1 and the default
  period 14, every gain and every loss is 0, both averages are 0, and the entry at
  index 14 is NaN instead of 100.
\<close>

theorem calculateRSI_flat_series_is_NaN:
  "calculateRSI (seriesUpTo 15) 14 = replicate 14 None @ [Some NaN]"
  by code_simp

subsection \<open>calculateSAR\<close>

lemma sar_step_af:
  "af (sar_step data s m i st) =
     (if sar_reversal data i st then s
      else if sar_new_extreme data i st then min (af st + s) m
      else af st)"
  by (simp add: sar_step_def Let_def)

lemma sar_step_isUptrend:
  "isUptrend (sar_step data s m i st) =
     (if sar_reversal data i st then \<not> isUptrend st else isUptrend st)"
  by (simp add: sar_step_def Let_def)

lemma sar_state_before_Suc:
  "1 \<le> i \<Longrightarrow>
   sar_state_before data s m (Suc i) = sar_step data s m i (sar_state_before data s m i)"
  by (simp add: sar_state_before_def)

lemma sar_af_le_max:
  "s \<le> m \<Longrightarrow> af (sar_state_before data s m i) \<le> m"
proof (induction i)
  case 0
  then show ?case by (simp add: sar_state_before_def sar_init_def Let_def)
next
  case (Suc i)
  show ?case
  proof (cases "1 \<le> i")
    case True
    then show ?thesis using Suc by (simp add: sar_state_before_Suc sar_step_af)
  next
    case False
    then show ?thesis using Suc.prems by (simp add: sar_state_before_def sar_init_def Let_def)
  qed
qed

lemma sar_af_ge_start:
  "0 \<le> s \<Longrightarrow> s \<le> m \<Longrightarrow> s \<le> af (sar_state_before data s m i)"
proof (induction i)
  case 0
  then show ?case by (simp add: sar_state_before_def sar_init_def Let_def)
next
  case (Suc i)
  show ?case
  proof (cases "1 \<le> i")
    case True
    then show ?thesis using Suc by (simp add: sar_state_before_Suc sar_step_af)
  next
    case False
    then show ?thesis using Suc.prems by (simp add: sar_state_before_def sar_init_def Let_def)
  qed
qed

lemma sarDemo_eval:
  "length sarDemo = 5"
  "sar_new_extreme sarDemo 1 (sar_state_before sarDemo 0.02 0.2 1)"
  "\<not> sar_reversal sarDemo 1 (sar_state_before sarDemo 0.02 0.2 1)"
  "af (sar_state_before sarDemo 0.02 0.2 1) = 0.02"
  "\<not> sar_new_extreme sarDemo 2 (sar_state_before sarDemo 0.02 0.2 2)"
  "\<not> sar_reversal sarDemo 2 (sar_state_before sarDemo 0.02 0.2 2)"
  "sar_reversal sarDemo 3 (sar_state_before sarDemo 0.02 0.2 3)"
  by code_simp+

text \<open>
  Claim C7. Take a series of at least 5 candles and the defaults \<open>startAf = 0.02\<close>,
  \<open>maxAf = 0.2\<close>, and let \<open>st\<close> be the loop state on entry to a tick \<open>i\<close> of the scan
  and \<open>st'\<close> the state it leaves. The acceleration factor lies between \<open>startAf\<close>
  and \<open>maxAf\<close> in both. The trend flips exactly when the tick is a reversal, and then
  the factor is reset to \<open>startAf\<close>; on a tick with a new extreme and no reversal it
  becomes \<open>min (af + startAf) maxAf\<close>; on any other tick it is unchanged. So it grows
  only on a tick with a new extreme and no reversal.
\<close>

theorem calculateSAR_acceleration_factor:
  assumes "5 \<le> length data" and "1 \<le> i" and "i < length data"
  shows "let st = sar_state_before data 0.02 0.2 i;
             st' = sar_state_before data 0.02 0.2 (Suc i)
         in 0.02 \<le> af st \<and> af st \<le> 0.2 \<and> 0.02 \<le> af st' \<and> af st' \<le> 0.2 \<and>
            (isUptrend st' \<noteq> isUptrend st \<longleftrightarrow> sar_reversal data i st) \<and>
            (sar_reversal data i st \<longrightarrow> af st' = 0.02) \<and>
            (\<not> sar_reversal data i st \<and> sar_new_extreme data i st \<longrightarrow>
               af st' = min (af st + 0.02) 0.2) \<and>
            (\<not> sar_reversal data i st \<and> \<not> sar_new_extreme data i st \<longrightarrow> af st' = af st) \<and>
            (af st < af st' \<longrightarrow> \<not> sar_reversal data i st \<and> sar_new_extreme data i st)"
proof -
  let ?st = "sar_state_before data 0.02 0.2 i"
  let ?st' = "sar_state_before data 0.02 0.2 (Suc i)"
  have le: "(0.02::real) \<le> 0.2" and nn: "(0::real) \<le> 0.02" by simp_all
  have b: "af ?st \<le> 0.2" by (rule sar_af_le_max [OF le])
  have b': "af ?st' \<le> 0.2" by (rule sar_af_le_max [OF le])
  have c: "0.02 \<le> af ?st" by (rule sar_af_ge_start [OF nn le])
  have c': "0.02 \<le> af ?st'" by (rule sar_af_ge_start [OF nn le])
  have step: "?st' = sar_step data 0.02 0.2 i ?st"
    using assms(2) by (rule sar_state_before_Suc)
  have t: "(isUptrend ?st' \<noteq> isUptrend ?st) = sar_reversal data i ?st"
    unfolding step by (simp add: sar_step_isUptrend)
  have a: "af ?st' = (if sar_reversal data i ?st then 0.02
      else if sar_new_extreme data i ?st then min (af ?st + 0.02) 0.2 else af ?st)"
    unfolding step by (rule sar_step_af)
  have a1: "sar_reversal data i ?st \<Longrightarrow> af ?st' = 0.02"
    by (simp only: a if_True)
  have a2: "\<not> sar_reversal data i ?st \<Longrightarrow> sar_new_extreme data i ?st \<Longrightarrow>
      af ?st' = min (af ?st + 0.02) 0.2"
    by (simp only: a if_True if_False)
  have a3: "\<not> sar_reversal data i ?st \<Longrightarrow> \<not> sar_new_extreme data i ?st \<Longrightarrow>
      af ?st' = af ?st"
    by (simp only: a if_False)
  have a4: "af ?st < af ?st' \<Longrightarrow> \<not> sar_reversal data i ?st \<and> sar_new_extreme data i ?st"
    using a1 a3 c by fastforce
  show ?thesis
    unfolding Let_def using b b' c c' t a1 a2 a3 a4 by blast
qed

theorem calculateSAR_acceleration_factor_witness:
  "5 \<le> length sarDemo \<and>
   af (sar_state_before sarDemo 0.02 0.2 2) = 0.04 \<and>
   af (sar_state_before sarDemo 0.02 0.2 3) = 0.04 \<and>
   af (sar_state_before sarDemo 0.02 0.2 4) = 0.02 \<and>
   isUptrend (sar_state_before sarDemo 0.02 0.2 4) \<noteq>
     isUptrend (sar_state_before sarDemo 0.02 0.2 3)"
proof -
  have len: "5 \<le> length sarDemo" by (simp add: sarDemo_eval(1))
  have i1: "(1::nat) \<le> 1" "1 < length sarDemo" by (simp_all add: sarDemo_eval(1))
  have i2: "(1::nat) \<le> 2" "2 < length sarDemo" by (simp_all add: sarDemo_eval(1))
  have i3: "(1::nat) \<le> 3" "3 < length sarDemo" by (simp_all add: sarDemo_eval(1))
  have n: "Suc 1 = 2" "Suc 2 = 3" "Suc 3 = 4" by simp_all
  note t1 = calculateSAR_acceleration_factor [OF len i1, unfolded Let_def n]
  note t2 = calculateSAR_acceleration_factor [OF len i2, unfolded Let_def n]
  note t3 = calculateSAR_acceleration_factor [OF len i3, unfolded Let_def n]
  have "af (sar_state_before sarDemo 0.02 0.2 2) =
      min (af (sar_state_before sarDemo 0.02 0.2 1) + 0.02) 0.2"
    using t1 sarDemo_eval(2,3) by blast
  then have a2: "af (sar_state_before sarDemo 0.02 0.2 2) = 0.04"
    unfolding sarDemo_eval(4) by simp
  have "af (sar_state_before sarDemo 0.02 0.2 3) = af (sar_state_before sarDemo 0.02 0.2 2)"
    using t2 sarDemo_eval(5,6) by blast
  then have a3: "af (sar_state_before sarDemo 0.02 0.2 3) = 0.04"
    using a2 by simp
  have a4: "af (sar_state_before sarDemo 0.02 0.2 4) = 0.02"
    and f: "isUptrend (sar_state_before sarDemo 0.02 0.2 4) \<noteq>
      isUptrend (sar_state_before sarDemo 0.02 0.2 3)"
    using t3 sarDemo_eval(7) by blast+
  show ?thesis using len a2 a3 a4 f by blast
qed

section \<open>Properties of the exchange selection\<close>

lemma fetchAvailableTickers_priority:
  "fetchAvailableTickers probe =
     concat (map (\<lambda>e. case probe e of Inl _ \<Rightarrow> [] | Inr t \<Rightarrow> [tagged e t]) priority)"
  by (simp add: fetchAvailableTickers_def allSettled_def priority_def fetchBinanceTicker_def
        fetchBybitTicker_def fetchMexcTicker_def fetchGateTicker_def fetchOkxTicker_def
        fetchTickerOf_def split: sum.splits)

lemma exchange_tagged: "exchange (tagged e t) = e"
  by (simp add: tagged_def)

lemma fetchAvailableTickers_exchanges:
  "map exchange (fetchAvailableTickers probe) = filter (\<lambda>e. \<not> isl (probe e)) priority"
  by (simp add: fetchAvailableTickers_priority priority_def exchange_tagged split: sum.splits)

lemma fetchAvailableTickers_empty:
  "fetchAvailableTickers probe = [] \<longleftrightarrow> (\<forall>e. isl (probe e))"
proof
  assume "fetchAvailableTickers probe = []"
  then have "filter (\<lambda>e. \<not> isl (probe e)) priority = []"
    using fetchAvailableTickers_exchanges [of probe] by simp
  then have "\<forall>e\<in>set priority. isl (probe e)" by (simp add: filter_empty_conv)
  moreover have "e \<in> set priority" for e by (cases e) (simp_all add: priority_def)
  ultimately show "\<forall>e. isl (probe e)" by blast
next
  assume "\<forall>e. isl (probe e)"
  then show "fetchAvailableTickers probe = []"
    by (simp add: fetchAvailableTickers_priority priority_def split: sum.splits)
       (metis sum.disc(2))
qed

lemma fast_path_fails:
  "isl (fast Binance) \<Longrightarrow> resolveTicker None aborted fast probe = slowPath aborted probe"
  by (cases "fast Binance")
     (simp_all add: resolveTicker_def fetchBinanceTicker_def fetchTickerOf_def)

lemma probes_eval:
  "fetchAvailableTickers demoProbe = [tagged MEXC demoFields, tagged OKX demoFields]"
  "fetchAvailableTickers deadProbe = []"
  by code_simp+

text \<open>
  Claim C8. Whatever the five probes answer, \<^verbatim>\<open>fetchAvailableTickers\<close> returns the
  tickers of exactly the probes that succeeded, each tagged with its exchange, in the
  order Binance, Bybit, MEXC, Gate, OKX. When no exchange is forced, the fast path on
  Binance has failed and the session has not been aborted meanwhile, \<^verbatim>\<open>loadData\<close>
  selects the first ticker of that list and its exchange, and it fails (with the error
  \<^verbatim>\<open>Not found\<close>) exactly when all five probes fail.
\<close>

theorem exchange_selection:
  assumes fastFails: "isl (fast Binance)" and live: "\<not> aborted"
  shows "fetchAvailableTickers probe =
           concat (map (\<lambda>e. case probe e of Inl _ \<Rightarrow> [] | Inr t \<Rightarrow> [tagged e t]) priority) \<and>
         map exchange (fetchAvailableTickers probe) = filter (\<lambda>e. \<not> isl (probe e)) priority \<and>
         resolveTicker None aborted fast probe =
           (case fetchAvailableTickers probe of
              [] \<Rightarrow> Failed (Error ''Not found'')
            | t # _ \<Rightarrow> Selected (exchange t) t) \<and>
         ((\<exists>err. resolveTicker None aborted fast probe = Failed err) \<longleftrightarrow>
            (\<forall>e. isl (probe e)))"
proof -
  have r: "resolveTicker None aborted fast probe =
           (case fetchAvailableTickers probe of
              [] \<Rightarrow> Failed (Error ''Not found'')
            | t # _ \<Rightarrow> Selected (exchange t) t)"
    using live fast_path_fails [of fast aborted probe, OF fastFails]
    by (simp add: slowPath_def Let_def split: list.splits)
  have "(\<exists>err. resolveTicker None aborted fast probe = Failed err) \<longleftrightarrow>
        fetchAvailableTickers probe = []"
    unfolding r by (simp split: list.splits)
  then show ?thesis
    using r fetchAvailableTickers_priority [of probe] fetchAvailableTickers_exchanges [of probe]
      fetchAvailableTickers_empty [of probe] by simp
qed

theorem exchange_selection_witness:
  "isl (deadProbe Binance) \<and>
   map exchange (fetchAvailableTickers demoProbe) = [MEXC, OKX] \<and>
   resolveTicker None False deadProbe demoProbe = Selected MEXC (tagged MEXC demoFields) \<and>
   resolveTicker None False deadProbe deadProbe = Failed (Error ''Not found'')"
proof -
  have d: "isl (deadProbe Binance)" by (simp add: deadProbe_def)
  have n: "\<not> False" by simp
  have r1: "resolveTicker None False deadProbe demoProbe =
      (case fetchAvailableTickers demoProbe of
         [] \<Rightarrow> Failed (Error ''Not found'') | t # _ \<Rightarrow> Selected (exchange t) t)"
    using exchange_selection [of deadProbe False demoProbe, OF d n] by blast
  have r2: "resolveTicker None False deadProbe deadProbe =
      (case fetchAvailableTickers deadProbe of
         [] \<Rightarrow> Failed (Error ''Not found'') | t # _ \<Rightarrow> Selected (exchange t) t)"
    using exchange_selection [of deadProbe False deadProbe, OF d n] by blast
  show ?thesis using d r1 r2 by (simp add: probes_eval exchange_tagged)
qed

section \<open>Properties of the snapshot fetcher\<close>

lemma directFailed_iff: "directFailed b url \<longleftrightarrow> isl (directAttempt b url)"
  by (simp add: directFailed_def directAttempt_def split: sum.splits)

lemma percentEncode_demoUrl: "percentEncode demoUrl = ''https%3A%2F%2Fx.io%2Fk%3Fs%3DA%20B''"
  by code_simp

lemma viaRelay_proxy: "viaRelay (PROXY_URL @ u)"
  by (simp add: viaRelay_def)

lemma not_viaRelay_demoUrl: "\<not> viaRelay demoUrl"
  by code_simp

lemma not_viaRelay_klinesUrl: "\<not> viaRelay (klinesUrl symb interval limit exch)"
  by (simp add: viaRelay_def klinesUrl_def PROXY_URL_def BINANCE_API_def BYBIT_API_def
        MEXC_API_def GATE_API_def OKX_API_def Let_def)

lemma demoParse_simps:
  "demoParse ''ENVELOPE'' = Inr (JObj [(''contents'', JStr ''ROWS'')])"
  "demoParse ''ROWS'' = Inr demoRows"
  "demoParse ''NOTICE'' = Inr (JStr ''Too many requests'')"
  "demoParse ''EMPTY'' = Inr (JObj [(''contents'', JStr [])])"
  "demoParse ''BARE'' = Inr (JObj [(''status'', JNum 200)])"
  "demoParse ''SCALARS'' = Inr (JArr [JNum 5, JStr ''x''])"
  "demoParse ''REFUSAL'' =
     Inr (JObj [(''code'', JNum (- 1121)), (''msg'', JStr ''Invalid symbol.'')])"
  "demoParse ''SPIKED'' = Inr (JArr [JArr [JNum 1, JNum 2, JObj [(''toString'', JNum 5)]]])"
  "demoParse ''HOLE'' = Inr (JArr [JNull])"
  "demoParse ''HTML'' = Inl (SyntaxError ''Unexpected token'')"
  by (simp_all add: demoParse_def demoRows_def)

lemma browser_fields:
  "fetch corsBrowser u = (if viaRelay u
       then Inr \<lparr>ok = True, statusText = ''OK'', body = ''ENVELOPE''\<rparr>
       else Inl (TypeError ''Failed to fetch''))"
  "fetch htmlBrowser u = (if viaRelay u
       then Inr \<lparr>ok = True, statusText = ''OK'', body = ''ENVELOPE''\<rparr>
       else Inr \<lparr>ok = True, statusText = ''OK'', body = ''HTML''\<rparr>)"
  "fetch emptyBrowser u = (if viaRelay u
       then Inr \<lparr>ok = True, statusText = ''OK'', body = ''EMPTY''\<rparr>
       else Inl (TypeError ''Failed to fetch''))"
  "fetch bareBrowser u = (if viaRelay u
       then Inr \<lparr>ok = True, statusText = ''OK'', body = ''BARE''\<rparr>
       else Inl (TypeError ''Failed to fetch''))"
  "fetch refusedBrowser u = Inr \<lparr>ok = False, statusText = ''Bad Gateway'', body = []\<rparr>"
  "fetch offlineBrowser u = Inl (TypeError ''Failed to fetch'')"
  "fetch onlineBrowser u = Inr \<lparr>ok = True, statusText = ''OK'', body = ''ROWS''\<rparr>"
  "fetch noticeBrowser u = Inr \<lparr>ok = True, statusText = ''OK'', body = ''NOTICE''\<rparr>"
  "fetch (answering t) u = Inr \<lparr>ok = True, statusText = ''OK'', body = t\<rparr>"
  "json_parse corsBrowser = demoParse" "json_parse htmlBrowser = demoParse"
  "json_parse offlineBrowser = demoParse" "json_parse onlineBrowser = demoParse"
  "json_parse noticeBrowser = demoParse" "json_parse emptyBrowser = demoParse"
  "json_parse bareBrowser = demoParse" "json_parse refusedBrowser = demoParse"
  "json_parse (answering t) = demoParse"
  "encodeURIComponent corsBrowser = percentEncode"
  "encodeURIComponent htmlBrowser = percentEncode"
  "encodeURIComponent offlineBrowser = percentEncode"
  "encodeURIComponent emptyBrowser = percentEncode"
  "encodeURIComponent bareBrowser = percentEncode"
  "encodeURIComponent refusedBrowser = percentEncode"
  "parseFloat corsBrowser = numberOf" "asNumber corsBrowser = (\<lambda>v. \<lfloor>numberOf v\<rfloor>)"
  "parseFloat (answering t) = numberOf" "asNumber (answering t) = (\<lambda>v. \<lfloor>numberOf v\<rfloor>)"
  by (simp_all add: corsBrowser_def htmlBrowser_def offlineBrowser_def onlineBrowser_def
        noticeBrowser_def emptyBrowser_def bareBrowser_def refusedBrowser_def answering_def)

lemma proxyAttempt_relay:
  "fetch b (proxyUrlOf b url) = Inr \<lparr>ok = True, statusText = ''OK'', body = ''ENVELOPE''\<rparr> \<Longrightarrow>
   json_parse b = demoParse \<Longrightarrow> proxyAttempt b url = Inr demoRows"
  by (simp add: proxyAttempt_def demoParse_simps JSON_parse_def)

lemma attempts_eval:
  "directFailed corsBrowser demoUrl"
  "proxyAttempt corsBrowser demoUrl = Inr demoRows"
  "directFailed offlineBrowser demoUrl"
  "proxyAttempt offlineBrowser demoUrl = Inl (TypeError ''Failed to fetch'')"
  "\<not> directFailed onlineBrowser demoUrl"
  "directAttempt onlineBrowser demoUrl = Inr demoRows"
  "directFailed emptyBrowser demoUrl"
  "directFailed bareBrowser demoUrl"
  "directFailed refusedBrowser demoUrl"
  by (simp_all add: directFailed_def directAttempt_def proxyUrlOf_def browser_fields
        not_viaRelay_demoUrl viaRelay_proxy demoParse_simps proxyAttempt_def JSON_parse_def)

text \<open>
  Claim C5 as written fails at two inputs. A direct answer with status ok whose body is
  not JSON is neither a transport error nor a non-success status, and the relay is
  requested all the same, because \<^verbatim>\<open>res.json()\<close> is awaited inside the outer \<^verbatim>\<open>try\<close>.
  And an envelope whose contents is the empty string is not parsed and not returned
  raw: the empty string is falsy, so the relay attempt fails with
  \<^verbatim>\<open>Proxy response missing contents\<close>.
\<close>

theorem fetchWithFallback_claim_counterexample:
  "fetch htmlBrowser demoUrl = Inr \<lparr>ok = True, statusText = ''OK'', body = ''HTML''\<rparr> \<and>
   fetchWithFallback htmlBrowser demoUrl =
     ([demoUrl, PROXY_URL @ ''https%3A%2F%2Fx.io%2Fk%3Fs%3DA%20B''], Inr demoRows) \<and>
   fetchWithFallback emptyBrowser demoUrl =
     ([demoUrl, PROXY_URL @ ''https%3A%2F%2Fx.io%2Fk%3Fs%3DA%20B''],
      Inl (Error ''Proxy response missing contents''))"
  by (simp add: fetchWithFallback_def directAttempt_def browser_fields not_viaRelay_demoUrl
        demoParse_simps proxyUrlOf_def viaRelay_proxy proxyAttempt_def JSON_parse_def
        percentEncode_demoUrl)

text \<open>
  Claim C5, amended. \<^verbatim>\<open>fetchWithFallback\<close> requests the original URL first. The direct
  attempt fails when the request is refused, when the status is not ok, or when the body
  of an ok answer is not JSON (\<open>directFailed\<close>). If it does not fail, nothing else is
  requested and the parsed body is returned. If it fails, the relay is requested, once,
  at \<^verbatim>\<open>PROXY_URL\<close> followed by the URL-encoded original URL, and the outcome is that of
  the relay attempt: when the relay answers ok with an envelope whose contents is a
  non-empty string, the parsed contents, or the raw string if it does not parse; and
  when the relay attempt fails, the operation fails with the relay attempt's own error.
  The relay attempt fails when the relay request is refused (with the error of the
  request), when its status is not ok (with \<^verbatim>\<open>Proxy fetch failed\<close> and the status
  text), when the envelope is not JSON (with the parse error), and when the envelope has
  no contents or contents that are falsy, the empty string among them (with
  \<^verbatim>\<open>Proxy response missing contents\<close>).
\<close>

theorem fetchWithFallback_behaviour:
  "hd (fst (fetchWithFallback b url)) = url \<and>
   (\<not> directFailed b url \<longrightarrow>
      fst (fetchWithFallback b url) = [url] \<and>
      snd (fetchWithFallback b url) = directAttempt b url) \<and>
   (directFailed b url \<longrightarrow>
      fst (fetchWithFallback b url) = [url, PROXY_URL @ encodeURIComponent b url] \<and>
      snd (fetchWithFallback b url) = proxyAttempt b url) \<and>
   (directFailed b url \<and> fetch b (PROXY_URL @ encodeURIComponent b url) = Inr res \<and> ok res \<and>
    json_parse b (body res) = Inr (JObj members) \<and>
    map_of members ''contents'' = Some (JStr s) \<and> s \<noteq> [] \<longrightarrow>
      snd (fetchWithFallback b url) =
        Inr (case json_parse b s of Inr v \<Rightarrow> v | Inl _ \<Rightarrow> JStr s)) \<and>
   (directFailed b url \<and> proxyAttempt b url = Inl err \<longrightarrow>
      snd (fetchWithFallback b url) = Inl err) \<and>
   (directFailed b url \<and> fetch b (PROXY_URL @ encodeURIComponent b url) = Inl err \<longrightarrow>
      snd (fetchWithFallback b url) = Inl err) \<and>
   (directFailed b url \<and> fetch b (PROXY_URL @ encodeURIComponent b url) = Inr res \<and>
    \<not> ok res \<longrightarrow>
      snd (fetchWithFallback b url) = Inl (Error (''Proxy fetch failed: '' @ statusText res))) \<and>
   (directFailed b url \<and> fetch b (PROXY_URL @ encodeURIComponent b url) = Inr res \<and> ok res \<and>
    json_parse b (body res) = Inl err \<longrightarrow>
      snd (fetchWithFallback b url) = Inl err) \<and>
   (directFailed b url \<and> fetch b (PROXY_URL @ encodeURIComponent b url) = Inr res \<and> ok res \<and>
    json_parse b (body res) = Inr (JObj members) \<and>
    (map_of members ''contents'' = None \<or> map_of members ''contents'' = Some (JStr [])) \<longrightarrow>
      snd (fetchWithFallback b url) = Inl (Error ''Proxy response missing contents'')) \<and>
   (directFailed b url \<and> fetch b (PROXY_URL @ encodeURIComponent b url) = Inr res \<and> ok res \<and>
    json_parse b (body res) = Inr proxyData \<and>
    getProperty proxyData ''contents'' = Inr contents \<and> \<not> truthy contents \<longrightarrow>
      snd (fetchWithFallback b url) = Inl (Error ''Proxy response missing contents''))"
proof -
  let ?relay = "PROXY_URL @ encodeURIComponent b url"
  have split: "fetchWithFallback b url =
      (if directFailed b url then ([url, proxyUrlOf b url], proxyAttempt b url)
       else ([url], directAttempt b url))"
    by (simp add: fetchWithFallback_def directFailed_iff split: sum.splits)
  have env: "fetch b ?relay = Inr res \<and> ok res \<and>
    json_parse b (body res) = Inr (JObj members) \<and>
    map_of members ''contents'' = Some (JStr s) \<and> s \<noteq> [] \<longrightarrow>
      proxyAttempt b url = Inr (case json_parse b s of Inr v \<Rightarrow> v | Inl _ \<Rightarrow> JStr s)"
    by (simp add: proxyAttempt_def proxyUrlOf_def JSON_parse_def split: sum.splits)
  have refused: "fetch b ?relay = Inl err \<longrightarrow> proxyAttempt b url = Inl err"
    by (simp add: proxyAttempt_def proxyUrlOf_def)
  have status: "fetch b ?relay = Inr res \<and> \<not> ok res \<longrightarrow>
      proxyAttempt b url = Inl (Error (''Proxy fetch failed: '' @ statusText res))"
    by (simp add: proxyAttempt_def proxyUrlOf_def)
  have unparsed: "fetch b ?relay = Inr res \<and> ok res \<and> json_parse b (body res) = Inl err \<longrightarrow>
      proxyAttempt b url = Inl err"
    by (simp add: proxyAttempt_def proxyUrlOf_def)
  have falsy: "fetch b ?relay = Inr res \<and> ok res \<and> json_parse b (body res) = Inr proxyData \<and>
    getProperty proxyData ''contents'' = Inr contents \<and> \<not> truthy contents \<longrightarrow>
      proxyAttempt b url = Inl (Error ''Proxy response missing contents'')"
    by (simp add: proxyAttempt_def proxyUrlOf_def split: option.splits)
  have missing: "fetch b ?relay = Inr res \<and> ok res \<and>
    json_parse b (body res) = Inr (JObj members) \<and>
    (map_of members ''contents'' = None \<or> map_of members ''contents'' = Some (JStr [])) \<longrightarrow>
      proxyAttempt b url = Inl (Error ''Proxy response missing contents'')"
    by (auto simp: proxyAttempt_def proxyUrlOf_def)
  have relay: "directFailed b url \<Longrightarrow> snd (fetchWithFallback b url) = proxyAttempt b url"
    by (simp add: split)
  have c1: "hd (fst (fetchWithFallback b url)) = url" by (simp add: split)
  have c2: "\<not> directFailed b url \<longrightarrow>
      fst (fetchWithFallback b url) = [url] \<and>
      snd (fetchWithFallback b url) = directAttempt b url"
    by (simp add: split)
  have c3: "directFailed b url \<longrightarrow>
      fst (fetchWithFallback b url) = [url, ?relay] \<and>
      snd (fetchWithFallback b url) = proxyAttempt b url"
    by (simp add: split proxyUrlOf_def)
  have c4: "directFailed b url \<and> fetch b ?relay = Inr res \<and> ok res \<and>
    json_parse b (body res) = Inr (JObj members) \<and>
    map_of members ''contents'' = Some (JStr s) \<and> s \<noteq> [] \<longrightarrow>
      snd (fetchWithFallback b url) =
        Inr (case json_parse b s of Inr v \<Rightarrow> v | Inl _ \<Rightarrow> JStr s)"
    using env relay by simp
  have c5: "directFailed b url \<and> proxyAttempt b url = Inl err \<longrightarrow>
      snd (fetchWithFallback b url) = Inl err"
    using relay by simp
  have c6: "directFailed b url \<and> fetch b ?relay = Inl err \<longrightarrow>
      snd (fetchWithFallback b url) = Inl err"
    using refused relay by simp
  have c7: "directFailed b url \<and> fetch b ?relay = Inr res \<and> \<not> ok res \<longrightarrow>
      snd (fetchWithFallback b url) = Inl (Error (''Proxy fetch failed: '' @ statusText res))"
    using status relay by simp
  have c8: "directFailed b url \<and> fetch b ?relay = Inr res \<and> ok res \<and>
    json_parse b (body res) = Inl err \<longrightarrow>
      snd (fetchWithFallback b url) = Inl err"
    using unparsed relay by simp
  have c9: "directFailed b url \<and> fetch b ?relay = Inr res \<and> ok res \<and>
    json_parse b (body res) = Inr (JObj members) \<and>
    (map_of members ''contents'' = None \<or> map_of members ''contents'' = Some (JStr [])) \<longrightarrow>
      snd (fetchWithFallback b url) = Inl (Error ''Proxy response missing contents'')"
    using missing relay by simp
  have c10: "directFailed b url \<and> fetch b ?relay = Inr res \<and> ok res \<and>
    json_parse b (body res) = Inr proxyData \<and>
    getProperty proxyData ''contents'' = Inr contents \<and> \<not> truthy contents \<longrightarrow>
      snd (fetchWithFallback b url) = Inl (Error ''Proxy response missing contents'')"
    using falsy relay by simp
  show ?thesis
    using c1 c2 c3 c4 c5 c6 c7 c8 c9 c10 by blast
qed

theorem fetchWithFallback_behaviour_witness:
  "fetchWithFallback onlineBrowser demoUrl = ([demoUrl], Inr demoRows) \<and>
   fetchWithFallback corsBrowser demoUrl =
     ([demoUrl, PROXY_URL @ ''https%3A%2F%2Fx.io%2Fk%3Fs%3DA%20B''], Inr demoRows) \<and>
   fetchWithFallback offlineBrowser demoUrl =
     ([demoUrl, PROXY_URL @ ''https%3A%2F%2Fx.io%2Fk%3Fs%3DA%20B''],
      Inl (TypeError ''Failed to fetch'')) \<and>
   snd (fetchWithFallback emptyBrowser demoUrl) =
     Inl (Error ''Proxy response missing contents'') \<and>
   snd (fetchWithFallback bareBrowser demoUrl) =
     Inl (Error ''Proxy response missing contents'') \<and>
   snd (fetchWithFallback refusedBrowser demoUrl) =
     Inl (Error ''Proxy fetch failed: Bad Gateway'')"
proof -
  note w1 = fetchWithFallback_behaviour [of onlineBrowser demoUrl]
  note w2 = fetchWithFallback_behaviour [of corsBrowser demoUrl]
  note w3 = fetchWithFallback_behaviour [of offlineBrowser demoUrl]
  note w4 = fetchWithFallback_behaviour [where b = emptyBrowser and url = demoUrl
      and res = "\<lparr>ok = True, statusText = ''OK'', body = ''EMPTY''\<rparr>"
      and members = "[(''contents'', JStr [])]"]
  note w5 = fetchWithFallback_behaviour [where b = bareBrowser and url = demoUrl
      and res = "\<lparr>ok = True, statusText = ''OK'', body = ''BARE''\<rparr>"
      and members = "[(''status'', JNum 200)]"]
  note w6 = fetchWithFallback_behaviour [where b = refusedBrowser and url = demoUrl
      and res = "\<lparr>ok = False, statusText = ''Bad Gateway'', body = []\<rparr>"]
  have "fst (fetchWithFallback onlineBrowser demoUrl) = [demoUrl]"
    "snd (fetchWithFallback onlineBrowser demoUrl) = Inr demoRows"
    using w1 attempts_eval by simp_all
  moreover have "fst (fetchWithFallback corsBrowser demoUrl) =
      [demoUrl, PROXY_URL @ ''https%3A%2F%2Fx.io%2Fk%3Fs%3DA%20B'']"
    "snd (fetchWithFallback corsBrowser demoUrl) = Inr demoRows"
    using w2 attempts_eval by (simp_all add: browser_fields percentEncode_demoUrl)
  moreover have "fst (fetchWithFallback offlineBrowser demoUrl) =
      [demoUrl, PROXY_URL @ ''https%3A%2F%2Fx.io%2Fk%3Fs%3DA%20B'']"
    "snd (fetchWithFallback offlineBrowser demoUrl) = Inl (TypeError ''Failed to fetch'')"
    using w3 attempts_eval by (simp_all add: browser_fields percentEncode_demoUrl)
  moreover have "snd (fetchWithFallback emptyBrowser demoUrl) =
      Inl (Error ''Proxy response missing contents'')"
    using w4 [THEN conjunct2, THEN conjunct2, THEN conjunct2, THEN conjunct2, THEN conjunct2,
        THEN conjunct2, THEN conjunct2, THEN conjunct2, THEN conjunct1] attempts_eval(7)
    by (simp add: browser_fields viaRelay_proxy demoParse_simps)
  moreover have "snd (fetchWithFallback bareBrowser demoUrl) =
      Inl (Error ''Proxy response missing contents'')"
    using w5 [THEN conjunct2, THEN conjunct2, THEN conjunct2, THEN conjunct2, THEN conjunct2,
        THEN conjunct2, THEN conjunct2, THEN conjunct2, THEN conjunct1] attempts_eval(8)
    by (simp add: browser_fields viaRelay_proxy demoParse_simps)
  moreover have "snd (fetchWithFallback refusedBrowser demoUrl) =
      Inl (Error ''Proxy fetch failed: Bad Gateway'')"
    using w6 [THEN conjunct2, THEN conjunct2, THEN conjunct2, THEN conjunct2, THEN conjunct2,
        THEN conjunct2, THEN conjunct1] attempts_eval(9)
    by (simp add: browser_fields)
  ultimately show ?thesis by (simp add: prod_eq_iff)
qed

section \<open>Properties of the candle batch fetch\<close>

lemma isl_thenE: "isl (thenE r f) = (isl r \<or> (\<exists>v. r = Inr v \<and> isl (f v)))"
  by (cases r) (simp_all add: thenE_def)

lemma thenE_Inr: "thenE (Inr v) f = f v"
  by (simp add: thenE_def)

lemma parse_isl:
  "isl (parseFloatJS b v) = conversionThrows v"
  "isl (parseIntJS b v) = conversionThrows v"
  by (simp_all add: parseFloatJS_def parseIntJS_def)

lemma parse_Inr:
  "(parseFloatJS b v = Inr x) = (\<not> conversionThrows v \<and> x = parseFloat b v)"
  "(parseIntJS b v = Inr n) = (\<not> conversionThrows v \<and> n = parseInt b v)"
  by (auto simp: parseFloatJS_def parseIntJS_def)

lemma element_null: "isl (element d k) = (d = JNull)"
  by (cases d) simp_all

lemma element_elementAt: "d \<noteq> JNull \<Longrightarrow> element d k = Inr (elementAt d k)"
  by (cases d) (simp_all add: elementAt_def)

lemma klineRow_throws: "isl (klineRow b exch d) = rowThrows exch d"
proof (cases "d = JNull")
  case True
  then show ?thesis
    by (simp add: klineRow_def rowThrows_def standardRow_def bybitRow_def gateRow_def okxRow_def)
next
  case False
  then show ?thesis
    by (auto simp: klineRow_def rowThrows_def convertedElements_def standardRow_def bybitRow_def
          gateRow_def okxRow_def element_elementAt isl_thenE parse_isl parse_Inr)
qed

lemma mapRows_isl: "isl (mapRows f rows) = (\<exists>d\<in>set rows. isl (f d))"
  by (induction rows) (auto split: sum.splits)

lemma mapRows_ok:
  "\<forall>d\<in>set rows. \<not> isl (f d) \<Longrightarrow> mapRows f rows = Inr (map (\<lambda>d. projr (f d)) rows)"
  by (induction rows) (auto split: sum.splits)

lemma knownExchange_cases:
  "knownExchange exch \<Longrightarrow>
   exch = ''Binance'' \<or> exch = ''Bybit'' \<or> exch = ''MEXC'' \<or> exch = ''Gate'' \<or> exch = ''OKX''"
  by (simp add: knownExchange_def)

lemma klineRow_simps:
  "klineRow b ''Binance'' = standardRow b" "klineRow b ''MEXC'' = standardRow b"
  "klineRow b ''Bybit'' = bybitRow b" "klineRow b ''Gate'' = gateRow b"
  "klineRow b ''OKX'' = okxRow b"
  by (rule ext, simp add: klineRow_def)+

lemma decode_array_branches:
  "decodeKlines b ''Binance'' data =
     (case data of JArr rows \<Rightarrow> mapRows (standardRow b) rows
      | _ \<Rightarrow> Inl (Error ''Invalid Binance Data''))"
  "decodeKlines b ''MEXC'' data =
     (case data of JArr rows \<Rightarrow> mapRows (standardRow b) rows
      | _ \<Rightarrow> Inl (Error ''Invalid MEXC Data''))"
  "decodeKlines b ''Gate'' data =
     (case data of JArr rows \<Rightarrow> mapRows (gateRow b) rows
      | _ \<Rightarrow> Inl (Error ''Invalid Gate Data''))"
  "klineRows ''Binance'' data = (case data of JArr rows \<Rightarrow> Some rows | _ \<Rightarrow> None)"
  "klineRows ''MEXC'' data = (case data of JArr rows \<Rightarrow> Some rows | _ \<Rightarrow> None)"
  "klineRows ''Gate'' data = (case data of JArr rows \<Rightarrow> Some rows | _ \<Rightarrow> None)"
  by (simp_all add: decodeKlines_def klineRows_def)

lemma decode_Bybit:
  "decodeKlines b ''Bybit'' data =
     (case klineRows ''Bybit'' data of
        Some rows \<Rightarrow> mapRows (bybitRow b) rows
      | None \<Rightarrow> (if data = JNull then Inl (TypeError ''Cannot read properties of null'')
                 else Inl (Error ''Invalid Bybit Data'')))"
proof (cases data)
  case (JObj members)
  show ?thesis
  proof (cases "map_of members ''result''")
    case None
    then show ?thesis using JObj by (simp add: decodeKlines_def klineRows_def)
  next
    case (Some r)
    show ?thesis
    proof (cases r)
      case (JObj resultMembers)
      then show ?thesis using Some \<open>data = JObj members\<close>
        by (simp add: decodeKlines_def klineRows_def split: option.splits json.splits)
    qed (use Some \<open>data = JObj members\<close> in \<open>simp_all add: decodeKlines_def klineRows_def\<close>)
  qed
qed (simp_all add: decodeKlines_def klineRows_def)

lemma decode_OKX:
  "decodeKlines b ''OKX'' data =
     (case klineRows ''OKX'' data of
        Some rows \<Rightarrow> mapRows (okxRow b) rows
      | None \<Rightarrow> (if data = JNull then Inl (TypeError ''Cannot read properties of null'')
                 else Inl (Error ''Invalid OKX Data'')))"
proof (cases data)
  case (JObj members)
  then show ?thesis
    by (simp add: decodeKlines_def klineRows_def split: option.splits json.splits)
qed (simp_all add: decodeKlines_def klineRows_def)

lemma decodeKlines_no_rows:
  assumes "knownExchange exch" and "klineRows exch data = None"
  shows "isl (decodeKlines b exch data)"
  using knownExchange_cases [OF assms(1)] assms(2)
  by (elim disjE) (simp_all add: decode_array_branches decode_Bybit decode_OKX split: json.splits)

lemma decodeKlines_rows:
  assumes "knownExchange exch" and "klineRows exch data = Some rows"
  shows "decodeKlines b exch data = mapRows (klineRow b exch) rows"
  using knownExchange_cases [OF assms(1)] assms(2)
  by (elim disjE)
     (simp_all add: decode_array_branches decode_Bybit decode_OKX klineRow_simps
        split: json.splits)

lemma fetchKlines_thrown:
  "fetchKlines_try b symb interval limit exch = Inl err \<Longrightarrow>
   fetchKlines b symb interval limit exch = Inr []"
  by (simp add: fetchKlines_def)

lemma fetchKlines_try_decode:
  "knownExchange exch \<Longrightarrow>
   snd (fetchWithFallback b (klinesUrl symb interval limit exch)) = Inr data \<Longrightarrow>
   fetchKlines_try b symb interval limit exch = decodeKlines b exch data"
  by (simp add: fetchKlines_try_def)

lemma fetchKlines_no_rows:
  assumes "knownExchange exch"
    and "snd (fetchWithFallback b (klinesUrl symb interval limit exch)) = Inr data"
    and "klineRows exch data = None"
  shows "fetchKlines b symb interval limit exch = Inr []"
  using decodeKlines_no_rows [OF assms(1,3), of b] fetchKlines_try_decode [OF assms(1,2)]
  by (auto simp: fetchKlines_def split: sum.splits)

lemma fetchKlines_row_throws:
  assumes "knownExchange exch"
    and "snd (fetchWithFallback b (klinesUrl symb interval limit exch)) = Inr data"
    and "klineRows exch data = Some rows"
    and "\<exists>d\<in>set rows. rowThrows exch d"
  shows "fetchKlines b symb interval limit exch = Inr []"
proof -
  have "isl (decodeKlines b exch data)"
    using assms by (simp add: decodeKlines_rows mapRows_isl klineRow_throws)
  then show ?thesis using fetchKlines_try_decode [OF assms(1,2)]
    by (auto simp: fetchKlines_def split: sum.splits)
qed

lemma fetchKlines_mapped:
  assumes "knownExchange exch"
    and "snd (fetchWithFallback b (klinesUrl symb interval limit exch)) = Inr data"
    and "klineRows exch data = Some rows"
    and "\<forall>d\<in>set rows. \<not> rowThrows exch d"
  shows "fetchKlines b symb interval limit exch =
           Inr (map (\<lambda>d. projr (klineRow b exch d)) rows)"
proof -
  have "decodeKlines b exch data = Inr (map (\<lambda>d. projr (klineRow b exch d)) rows)"
    using assms by (simp add: decodeKlines_rows mapRows_ok klineRow_throws)
  then show ?thesis using fetchKlines_try_decode [OF assms(1,2)]
    by (simp add: fetchKlines_def)
qed

lemma answering_got:
  "demoParse t = Inr v \<Longrightarrow> snd (fetchWithFallback (answering t) u) = Inr v"
  by (simp add: fetchWithFallback_def directAttempt_def browser_fields)

lemma klines_eval:
  "knownExchange ''Binance''" "\<not> knownExchange ''Kraken''"
  "snd (fetchWithFallback offlineBrowser u) = Inl (TypeError ''Failed to fetch'')"
  "snd (fetchWithFallback noticeBrowser u) = Inr (JStr ''Too many requests'')"
  "snd (fetchWithFallback corsBrowser (klinesUrl symb interval limit exch)) = Inr demoRows"
  by (simp_all add: knownExchange_def fetchWithFallback_def directAttempt_def proxyAttempt_def
        browser_fields demoParse_simps not_viaRelay_klinesUrl proxyUrlOf_def viaRelay_proxy
        JSON_parse_def)

lemma rows_eval:
  "\<not> rowThrows ''Binance'' (JNum 5)" "\<not> rowThrows ''Binance'' (JStr ''x'')"
  "\<not> rowThrows ''Binance'' (JArr [JNum 1700000000000, JNum 10, JNum 12, JNum 9, JNum 11, JNum 5])"
  "rowThrows ''Binance'' JNull"
  "rowThrows ''Binance'' (JArr [JNum 1, JNum 2, JObj [(''toString'', JNum 5)]])"
  by (simp_all add: rowThrows_def convertedElements_def elementAt_def conversionThrows_def)

lemma demoCandle_row:
  "projr (klineRow corsBrowser ''Binance''
     (JArr [JNum 1700000000000, JNum 10, JNum 12, JNum 9, JNum 11, JNum 5])) = demoCandle"
  by (simp add: klineRow_def standardRow_def thenE_def parseFloatJS_def conversionThrows_def
        elementAt_def browser_fields numberOf_def demoCandle_def)

text \<open>
  Claim C9 as written fails on a response that is malformed without being a failure.
  When the answer for Binance is the array \<^verbatim>\<open>[5, "x"]\<close>, nothing is thrown: each element
  is taken for a row and mapped, and two candles come back instead of the empty
  sequence (in JavaScript their prices are NaN, which the finite numbers of the model do
  not show).
\<close>

theorem fetchKlines_claim_counterexample:
  "snd (fetchWithFallback (answering ''SCALARS'') (klinesUrl ''btc'' ''1h'' 500 ''Binance'')) =
     Inr (JArr [JNum 5, JStr ''x'']) \<and>
   fetchKlines (answering ''SCALARS'') ''btc'' ''1h'' 500 ''Binance'' \<noteq> Inr [] \<and>
   map_sum id length (fetchKlines (answering ''SCALARS'') ''btc'' ''1h'' 500 ''Binance'') = Inr 2"
proof -
  have got: "snd (fetchWithFallback (answering ''SCALARS'')
      (klinesUrl ''btc'' ''1h'' 500 ''Binance'')) = Inr (JArr [JNum 5, JStr ''x''])"
    by (simp add: answering_got demoParse_simps)
  have rows: "klineRows ''Binance'' (JArr [JNum 5, JStr ''x'']) = Some [JNum 5, JStr ''x'']"
    by (simp add: decode_array_branches)
  have "\<forall>d\<in>set [JNum 5, JStr ''x'']. \<not> rowThrows ''Binance'' d"
    by (simp add: rows_eval)
  from fetchKlines_mapped [OF klines_eval(1) got rows this]
  show ?thesis using got by simp
qed

text \<open>
  Claim C9, amended. For every symbol, interval, limit and exchange string the promise
  of \<^verbatim>\<open>fetchKlines\<close> is fulfilled, never rejected. It is fulfilled with the empty array
  when the exchange is none of the five, when \<^verbatim>\<open>fetchWithFallback\<close> fails, when the
  fetched value does not hold the array that the branch looks for (the value itself for
  Binance, MEXC and Gate, \<^verbatim>\<open>result.list\<close> for Bybit, \<^verbatim>\<open>data\<close> for OKX), and when mapping
  one of the rows throws (a \<^verbatim>\<open>null\<close> row, or an element whose conversion to a string
  throws). In every other case, rows of the wrong shape included, nothing is thrown and
  it is fulfilled with one candle for each row, in the order the branch maps them.
\<close>

theorem fetchKlines_outcome:
  "(\<exists>klines. fetchKlines b symb interval limit exch = Inr klines) \<and>
   (\<not> knownExchange exch \<longrightarrow> fetchKlines b symb interval limit exch = Inr []) \<and>
   (knownExchange exch \<and>
    snd (fetchWithFallback b (klinesUrl symb interval limit exch)) = Inl err \<longrightarrow>
      fetchKlines b symb interval limit exch = Inr []) \<and>
   (knownExchange exch \<and>
    snd (fetchWithFallback b (klinesUrl symb interval limit exch)) = Inr data \<and>
    klineRows exch data = None \<longrightarrow>
      fetchKlines b symb interval limit exch = Inr []) \<and>
   (knownExchange exch \<and>
    snd (fetchWithFallback b (klinesUrl symb interval limit exch)) = Inr data \<and>
    klineRows exch data = Some rows \<and> (\<exists>d\<in>set rows. rowThrows exch d) \<longrightarrow>
      fetchKlines b symb interval limit exch = Inr []) \<and>
   (knownExchange exch \<and>
    snd (fetchWithFallback b (klinesUrl symb interval limit exch)) = Inr data \<and>
    klineRows exch data = Some rows \<and> (\<forall>d\<in>set rows. \<not> rowThrows exch d) \<longrightarrow>
      fetchKlines b symb interval limit exch = Inr (map (\<lambda>d. projr (klineRow b exch d)) rows) \<and>
      map_sum id length (fetchKlines b symb interval limit exch) = Inr (length rows))"
proof -
  let ?got = "snd (fetchWithFallback b (klinesUrl symb interval limit exch))"
  let ?out = "fetchKlines b symb interval limit exch"
  have A: "\<exists>klines. ?out = Inr klines"
    by (simp add: fetchKlines_def split: sum.splits)
  have B: "\<not> knownExchange exch \<Longrightarrow> ?out = Inr []"
    by (simp add: fetchKlines_def fetchKlines_try_def)
  have C: "knownExchange exch \<Longrightarrow> ?got = Inl err \<Longrightarrow> ?out = Inr []"
    by (simp add: fetchKlines_def fetchKlines_try_def)
  have D: "?out = Inr []"
    if "knownExchange exch" "?got = Inr data" "klineRows exch data = None"
    using that by (rule fetchKlines_no_rows)
  have E: "?out = Inr []"
    if "knownExchange exch" "?got = Inr data" "klineRows exch data = Some rows"
      "\<exists>d\<in>set rows. rowThrows exch d"
    using that by (rule fetchKlines_row_throws)
  have F: "?out = Inr (map (\<lambda>d. projr (klineRow b exch d)) rows)"
    if "knownExchange exch" "?got = Inr data" "klineRows exch data = Some rows"
      "\<forall>d\<in>set rows. \<not> rowThrows exch d"
    using that by (rule fetchKlines_mapped)
  have F': "map_sum id length ?out = Inr (length rows)"
    if "knownExchange exch" "?got = Inr data" "klineRows exch data = Some rows"
      "\<forall>d\<in>set rows. \<not> rowThrows exch d"
    using F [OF that] by simp
  show ?thesis using A B C D E F F' by blast
qed

theorem fetchKlines_outcome_witness:
  "fetchKlines offlineBrowser ''btc'' ''1h'' 500 ''Binance'' = Inr [] \<and>
   fetchKlines corsBrowser ''btc'' ''1h'' 500 ''Kraken'' = Inr [] \<and>
   fetchKlines noticeBrowser ''btc'' ''1h'' 500 ''Binance'' = Inr [] \<and>
   fetchKlines (answering ''REFUSAL'') ''btc'' ''1h'' 500 ''Binance'' = Inr [] \<and>
   fetchKlines (answering ''HOLE'') ''btc'' ''1h'' 500 ''Binance'' = Inr [] \<and>
   fetchKlines (answering ''SPIKED'') ''btc'' ''1h'' 500 ''Binance'' = Inr [] \<and>
   fetchKlines corsBrowser ''btc'' ''1h'' 500 ''Binance'' = Inr [demoCandle]"
proof -
  note k = klines_eval(1)
  have "fetchKlines offlineBrowser ''btc'' ''1h'' 500 ''Binance'' = Inr []"
    using fetchKlines_outcome [where b = offlineBrowser and symb = "''btc''"
        and interval = "''1h''" and limit = 500 and exch = "''Binance''"
        and err = "TypeError ''Failed to fetch''", THEN conjunct2, THEN conjunct2, THEN conjunct1]
      k klines_eval(3) by simp
  moreover have "fetchKlines corsBrowser ''btc'' ''1h'' 500 ''Kraken'' = Inr []"
    using fetchKlines_outcome [where b = corsBrowser and symb = "''btc''"
        and interval = "''1h''" and limit = 500 and exch = "''Kraken''",
        THEN conjunct2, THEN conjunct1]
      klines_eval(2) by simp
  moreover have "fetchKlines noticeBrowser ''btc'' ''1h'' 500 ''Binance'' = Inr []"
    using fetchKlines_outcome [where b = noticeBrowser and symb = "''btc''"
        and interval = "''1h''" and limit = 500 and exch = "''Binance''"
        and data = "JStr ''Too many requests''",
        THEN conjunct2, THEN conjunct2, THEN conjunct2, THEN conjunct1]
      k klines_eval(4) by (simp add: decode_array_branches)
  moreover have "fetchKlines (answering ''REFUSAL'') ''btc'' ''1h'' 500 ''Binance'' = Inr []"
    using fetchKlines_outcome [where b = "answering ''REFUSAL''" and symb = "''btc''"
        and interval = "''1h''" and limit = 500 and exch = "''Binance''"
        and data = "JObj [(''code'', JNum (- 1121)), (''msg'', JStr ''Invalid symbol.'')]",
        THEN conjunct2, THEN conjunct2, THEN conjunct2, THEN conjunct1]
      k by (simp add: decode_array_branches answering_got demoParse_simps)
  moreover have "fetchKlines (answering ''HOLE'') ''btc'' ''1h'' 500 ''Binance'' = Inr []"
    using fetchKlines_outcome [where b = "answering ''HOLE''" and symb = "''btc''"
        and interval = "''1h''" and limit = 500 and exch = "''Binance''"
        and data = "JArr [JNull]" and rows = "[JNull]",
        THEN conjunct2, THEN conjunct2, THEN conjunct2, THEN conjunct2, THEN conjunct1]
      k by (simp add: decode_array_branches answering_got demoParse_simps rows_eval)
  moreover have "fetchKlines (answering ''SPIKED'') ''btc'' ''1h'' 500 ''Binance'' = Inr []"
    using fetchKlines_outcome [where b = "answering ''SPIKED''" and symb = "''btc''"
        and interval = "''1h''" and limit = 500 and exch = "''Binance''"
        and data = "JArr [JArr [JNum 1, JNum 2, JObj [(''toString'', JNum 5)]]]"
        and rows = "[JArr [JNum 1, JNum 2, JObj [(''toString'', JNum 5)]]]",
        THEN conjunct2, THEN conjunct2, THEN conjunct2, THEN conjunct2, THEN conjunct1]
      k by (simp add: decode_array_branches answering_got demoParse_simps rows_eval)
  moreover have "fetchKlines corsBrowser ''btc'' ''1h'' 500 ''Binance'' = Inr [demoCandle]"
    using fetchKlines_outcome [where b = corsBrowser and symb = "''btc''"
        and interval = "''1h''" and limit = 500 and exch = "''Binance''"
        and data = demoRows
        and rows = "[JArr [JNum 1700000000000, JNum 10, JNum 12, JNum 9, JNum 11, JNum 5]]",
        THEN conjunct2, THEN conjunct2, THEN conjunct2, THEN conjunct2, THEN conjunct2]
      k klines_eval(5)
    by (simp add: decode_array_branches demoRows_def rows_eval demoCandle_row)
  ultimately show ?thesis by blast
qed

end
